theory Spec2Isabelle
  imports Main "HOL-Library.Multiset" "HOL-Library.Signed_Division" "HOL-Library.Sublist"
    "HOL-Library.Word"
begin

section \<open>JavaScript values\<close>

text \<open>
  A JavaScript string is a sequence of UTF-16 code units. \<open>js\<close> writes an ASCII literal
  as such a string. \<open>startsWith\<close>, \<open>endsWith\<close> and \<open>includes\<close> are \<open>prefix\<close>,
  \<open>suffix\<close> and \<open>sublist\<close> on the code units.
\<close>

type_synonym jsstring = "16 word list"

definition js :: "string \<Rightarrow> jsstring" where
  "js s = map of_char s"

text \<open>
  \<open>xs.slice(start, end)\<close> on a string or an array: a negative index counts from the
  end, and both indices are clamped to the length. It is named \<open>slice'\<close> here, as
  \<open>slice\<close> is an operation on words in the library. \<open>sliceFrom\<close> is the call with
  \<open>end\<close> left out.
\<close>

definition slice' :: "int \<Rightarrow> int \<Rightarrow> 'a list \<Rightarrow> 'a list" where
  "slice' start end xs =
     (let len = int (length xs);
          from = (if start < 0 then max (len + start) 0 else min start len);
          to = (if end < 0 then max (len + end) 0 else min end len)
      in take (nat (to - from)) (drop (nat from) xs))"

definition sliceFrom :: "int \<Rightarrow> 'a list \<Rightarrow> 'a list" where
  "sliceFrom start xs = slice' start (int (length xs)) xs"

text \<open>
  The string iterator (\<open>[...value]\<close>) and a regular expression with the \<open>u\<close> flag
  read a string by code points: a high surrogate followed by a low surrogate is one
  element of two code units, every other code unit (a lone surrogate too) is an element
  of its own.
\<close>

definition isHighSurrogate :: "16 word \<Rightarrow> bool" where
  "isHighSurrogate u = (0xD800 \<le> u \<and> u \<le> 0xDBFF)"

definition isLowSurrogate :: "16 word \<Rightarrow> bool" where
  "isLowSurrogate u = (0xDC00 \<le> u \<and> u \<le> 0xDFFF)"

fun stringIterator :: "jsstring \<Rightarrow> jsstring list" where
  "stringIterator [] = []"
| "stringIterator [u] = [[u]]"
| "stringIterator (u # v # rest) =
     (if isHighSurrogate u \<and> isLowSurrogate v then [u, v] # stringIterator rest
      else [u] # stringIterator (v # rest))"

text \<open>
  \<open>s.codePointAt(0)\<close>, the code point an element of the iterator stands for. (On the
  empty string JavaScript gives \<open>undefined\<close>; the iterator has no empty element.)
\<close>

fun codePointAt0 :: "jsstring \<Rightarrow> nat" where
  "codePointAt0 (u # v # rest) =
     (if isHighSurrogate u \<and> isLowSurrogate v
      then 0x10000 + (unat u - 0xD800) * 0x400 + (unat v - 0xDC00)
      else unat u)"
| "codePointAt0 [u] = unat u"
| "codePointAt0 [] = 0"

definition codePoints :: "jsstring \<Rightarrow> nat list" where
  "codePoints s = map codePointAt0 (stringIterator s)"

text \<open>A value handed to a function that tests \<open>typeof\<close>: a string or anything else.\<close>

datatype jsvalue = JSString jsstring | JSNonString

text \<open>
  A dictionary is a plain object: its own properties are a map from keys to values, and
  its prototype is \<open>Object.prototype\<close>. The read \<open>obj[key]\<close> gives the stored value
  of an own property; for a key that is not an own property it gives the member of
  \<open>Object.prototype\<close> of that name when there is one (a function, or for
  \<open>__proto__\<close> the prototype object: truthy values that are neither strings nor
  numbers), and \<open>undefined\<close> otherwise.
\<close>

definition objectPrototypeKeys :: "jsstring list" where
  "objectPrototypeKeys =
     [js ''constructor'', js ''toString'', js ''toLocaleString'', js ''valueOf'',
      js ''hasOwnProperty'', js ''isPrototypeOf'', js ''propertyIsEnumerable'',
      js ''__proto__'', js ''__defineGetter__'', js ''__defineSetter__'',
      js ''__lookupGetter__'', js ''__lookupSetter__'']"

datatype 'a propertyValue = Stored 'a | InheritedMember jsstring

definition getProperty :: "(jsstring \<rightharpoonup> 'a) \<Rightarrow> jsstring \<Rightarrow> 'a propertyValue option" where
  "getProperty obj key =
     (case obj key of
        Some v \<Rightarrow> Some (Stored v)
      | None \<Rightarrow> if key \<in> set objectPrototypeKeys then Some (InheritedMember key) else None)"

section \<open>Sort utilities (sortUtils)\<close>

subsection \<open>Data model\<close>

text \<open>
  \<open>SortOption\<close> is the union of six string literals of the settings module, in the
  order of \<open>SORT_OPTIONS\<close>. Every value of the type is a non-empty string and so is
  truthy in a JavaScript condition.
\<close>

datatype SortOption =
  ModifiedDesc | ModifiedAsc | CreatedDesc | CreatedAsc | TitleAsc | TitleDesc

text \<open>\<open>NavigationItemType\<close>: the selection is a folder or a tag.\<close>

datatype NavigationItemType = FOLDER | TAG

text \<open>
  The host's \<open>TAbstractFile\<close> carries \<open>path\<close> and \<open>name\<close>. A \<open>TFolder\<close> is used
  only through its \<open>path\<close>; a \<open>TFile\<close> adds \<open>basename\<close>, \<open>extension\<close> and the
  two timestamps of \<open>stat\<close> (milliseconds, integers).
\<close>

record TAbstractFile =
  path :: jsstring
  name :: jsstring

type_synonym TFolder = TAbstractFile

record FileStats =
  ctime :: int
  mtime :: int

record TFile = TAbstractFile +
  basename :: jsstring
  extension :: jsstring
  stat :: FileStats

text \<open>
  The fields of \<open>NotebookNavigatorSettings\<close> that the modelled functions read. The two
  override maps are optional (the source reads them with \<open>?.\<close>), so each is an optional
  dictionary.
\<close>

record NotebookNavigatorSettings =
  defaultFolderSort :: SortOption
  folderSortOverrides :: "(jsstring \<rightharpoonup> SortOption) option"
  tagSortOverrides :: "(jsstring \<rightharpoonup> SortOption) option"
  showFeatureImage :: bool
  featureImageProperties :: "jsstring list"

subsection \<open>getEffectiveSortOption\<close>

text \<open>
  \<open>overrides?.[key]\<close>: \<open>undefined\<close> when the object is absent, and the read of the
  plain object otherwise. Whatever the read finds is truthy: a stored sort option is a
  non-empty string, and an inherited member is a function or an object.
\<close>

definition lookupOverride ::
    "(jsstring \<rightharpoonup> SortOption) option \<Rightarrow> jsstring \<Rightarrow> SortOption propertyValue option" where
  "lookupOverride overrides key =
     (case overrides of None \<Rightarrow> None | Some obj \<Rightarrow> getProperty obj key)"

text \<open>
  \<open>selectedFolder\<close> is \<open>TFolder | null\<close>: an object is truthy, \<open>null\<close> is not.
  \<open>selectedTag\<close> is \<open>string | null | undefined\<close>: \<open>None\<close> stands for \<open>null\<close> and
  \<open>undefined\<close>, and the condition \<open>selectedTag && ...\<close> is also false for the empty
  string. The function returns what the read of the override object gave, so its value
  is a stored sort option or, for a key such as \<open>constructor\<close> without a stored
  override, a member of \<open>Object.prototype\<close>; the default is the sort option stored in
  the settings.
\<close>

definition getEffectiveSortOption ::
    "NotebookNavigatorSettings \<Rightarrow> NavigationItemType \<Rightarrow> TFolder option \<Rightarrow> jsstring option
       \<Rightarrow> SortOption propertyValue" where
  "getEffectiveSortOption settings selectionType selectedFolder selectedTag =
     (case (if selectionType = FOLDER
            then (case selectedFolder of
                    None \<Rightarrow> None
                  | Some folder \<Rightarrow> lookupOverride (folderSortOverrides settings) (path folder))
            else None) of
        Some folderOverride \<Rightarrow> folderOverride
      | None \<Rightarrow>
         (case (if selectionType = TAG
                then (case selectedTag of
                        None \<Rightarrow> None
                      | Some tag \<Rightarrow>
                          if tag = [] then None
                          else lookupOverride (tagSortOverrides settings) tag)
                else None) of
            Some tagOverride \<Rightarrow> tagOverride
          | None \<Rightarrow> Stored (defaultFolderSort settings)))"


subsection \<open>sortFiles\<close>

text \<open>
  \<open>Array.prototype.sort(compareFn)\<close> is a stable sort: \<open>a\<close> comes before \<open>b\<close> when
  \<open>compareFn(a, b) < 0\<close>, and elements that compare equal keep their order. For a
  consistent comparator that fixes the result, which the insertion sort below computes.
  (For an inconsistent comparator the language leaves the order to the engine.)
\<close>

fun insertSorted :: "('a \<Rightarrow> 'a \<Rightarrow> int) \<Rightarrow> 'a \<Rightarrow> 'a list \<Rightarrow> 'a list" where
  "insertSorted compareFn x [] = [x]"
| "insertSorted compareFn x (y # ys) =
     (if compareFn x y \<le> 0 then x # y # ys else y # insertSorted compareFn x ys)"

definition arraySort :: "('a \<Rightarrow> 'a \<Rightarrow> int) \<Rightarrow> 'a list \<Rightarrow> 'a list" where
  "arraySort compareFn xs = foldr (insertSorted compareFn) xs []"

text \<open>
  \<open>DateUtils.getFileTimestamp(file, dateType, settings, metadataCache)\<close> is not part of
  the sources at hand: it is the parameter \<open>getFileTimestamp\<close>, a function of the file
  and the date type (the settings and the cache are fixed during one sort). The
  platform's \<open>String.prototype.localeCompare\<close> is the parameter \<open>localeCompare\<close>.
  \<open>sortFiles\<close> sorts in place; the model returns the sorted array.
\<close>

datatype DateType = Modified | Created

definition sortFiles ::
    "(TFile \<Rightarrow> DateType \<Rightarrow> int) \<Rightarrow> (jsstring \<Rightarrow> jsstring \<Rightarrow> int) \<Rightarrow> TFile list \<Rightarrow> SortOption \<Rightarrow> TFile list" where
  "sortFiles getFileTimestamp localeCompare files sortOption =
     (case sortOption of
        ModifiedDesc \<Rightarrow>
          arraySort (\<lambda>a b.
            let aTime = getFileTimestamp a Modified; bTime = getFileTimestamp b Modified
            in bTime - aTime) files
      | ModifiedAsc \<Rightarrow>
          arraySort (\<lambda>a b.
            let aTime = getFileTimestamp a Modified; bTime = getFileTimestamp b Modified
            in aTime - bTime) files
      | CreatedDesc \<Rightarrow>
          arraySort (\<lambda>a b.
            let aTime = getFileTimestamp a Created; bTime = getFileTimestamp b Created
            in bTime - aTime) files
      | CreatedAsc \<Rightarrow>
          arraySort (\<lambda>a b.
            let aTime = getFileTimestamp a Created; bTime = getFileTimestamp b Created
            in aTime - bTime) files
      | TitleAsc \<Rightarrow> arraySort (\<lambda>a b. localeCompare (basename a) (basename b)) files
      | TitleDesc \<Rightarrow> arraySort (\<lambda>a b. localeCompare (basename b) (basename a)) files)"

text \<open>
  Modelled from the spec: \<open>DateUtils.getFileTimestamp\<close> is missing from the sources;
  the specification says that the external date source "may substitute a
  frontmatter-declared timestamp for the filesystem timestamp when so configured". This
  is the date source when nothing is substituted: the filesystem timestamp of the date
  type. It instantiates the parameter \<open>getFileTimestamp\<close> in the examples.
\<close>

definition statTimestamp :: "TFile \<Rightarrow> DateType \<Rightarrow> int" where
  "statTimestamp f dateType = (case dateType of Modified \<Rightarrow> mtime (stat f) | Created \<Rightarrow> ctime (stat f))"

text \<open>
  What the six options declare, for the statements about \<open>sortFiles\<close>: the field and
  direction of an option as the relation "\<open>a\<close> may stand before \<open>b\<close>", the option of the
  other direction, and a comparator that is consistent (antisymmetric in sign and
  transitive), as the language asks of \<open>compareFn\<close>.
\<close>

definition declaredOrder ::
    "(TFile \<Rightarrow> DateType \<Rightarrow> int) \<Rightarrow> (jsstring \<Rightarrow> jsstring \<Rightarrow> int) \<Rightarrow> SortOption \<Rightarrow> TFile \<Rightarrow> TFile \<Rightarrow> bool" where
  "declaredOrder getFileTimestamp localeCompare sortOption a b =
     (case sortOption of
        ModifiedDesc \<Rightarrow> getFileTimestamp a Modified \<ge> getFileTimestamp b Modified
      | ModifiedAsc \<Rightarrow> getFileTimestamp a Modified \<le> getFileTimestamp b Modified
      | CreatedDesc \<Rightarrow> getFileTimestamp a Created \<ge> getFileTimestamp b Created
      | CreatedAsc \<Rightarrow> getFileTimestamp a Created \<le> getFileTimestamp b Created
      | TitleAsc \<Rightarrow> localeCompare (basename a) (basename b) \<le> 0
      | TitleDesc \<Rightarrow> localeCompare (basename a) (basename b) \<ge> 0)"

definition tied ::
    "(TFile \<Rightarrow> DateType \<Rightarrow> int) \<Rightarrow> (jsstring \<Rightarrow> jsstring \<Rightarrow> int) \<Rightarrow> SortOption \<Rightarrow> TFile \<Rightarrow> TFile \<Rightarrow> bool" where
  "tied getFileTimestamp localeCompare sortOption a b =
     (case sortOption of
        ModifiedDesc \<Rightarrow> getFileTimestamp a Modified = getFileTimestamp b Modified
      | ModifiedAsc \<Rightarrow> getFileTimestamp a Modified = getFileTimestamp b Modified
      | CreatedDesc \<Rightarrow> getFileTimestamp a Created = getFileTimestamp b Created
      | CreatedAsc \<Rightarrow> getFileTimestamp a Created = getFileTimestamp b Created
      | TitleAsc \<Rightarrow> localeCompare (basename a) (basename b) = 0
      | TitleDesc \<Rightarrow> localeCompare (basename a) (basename b) = 0)"

fun noTies :: "('a \<Rightarrow> 'a \<Rightarrow> bool) \<Rightarrow> 'a list \<Rightarrow> bool" where
  "noTies tie [] = True"
| "noTies tie (x # xs) = (list_all (\<lambda>y. \<not> tie x y) xs \<and> noTies tie xs)"

fun oppositeDirection :: "SortOption \<Rightarrow> SortOption" where
  "oppositeDirection ModifiedDesc = ModifiedAsc"
| "oppositeDirection ModifiedAsc = ModifiedDesc"
| "oppositeDirection CreatedDesc = CreatedAsc"
| "oppositeDirection CreatedAsc = CreatedDesc"
| "oppositeDirection TitleAsc = TitleDesc"
| "oppositeDirection TitleDesc = TitleAsc"

definition consistentComparator :: "('a \<Rightarrow> 'a \<Rightarrow> int) \<Rightarrow> bool" where
  "consistentComparator compareFn =
     ((\<forall>a b. sgn (compareFn a b) = - sgn (compareFn b a))
      \<and> (\<forall>a b c. compareFn a b \<le> 0 \<and> compareFn b c \<le> 0 \<longrightarrow> compareFn a c \<le> 0))"

section \<open>File list item (FileItem)\<close>

subsection \<open>Props and the memo comparator\<close>

text \<open>
  An optional prop that may also be \<open>null\<close> has three kinds of value, and \<open>===\<close> tells
  them apart. \<open>onClick\<close> is compared by reference: the model keeps the identity of the
  function object.
\<close>

datatype 'a nullable = Undefined | Null | Value 'a

record FileItemProps =
  file' :: TFile
  isSelected :: bool
  hasSelectedAbove :: "bool option"
  hasSelectedBelow :: "bool option"
  onClick :: nat
  dateGroup :: "jsstring nullable"
  formattedDate :: "jsstring option"
  parentFolder :: "jsstring nullable"

text \<open>
  The second argument of \<open>memo\<close>: \<open>true\<close> when the props count as equal and the render
  is skipped. \<open>rerenders\<close> is its negation, a render caused by new props.
\<close>

definition propsAreEqual :: "FileItemProps \<Rightarrow> FileItemProps \<Rightarrow> bool" where
  "propsAreEqual prevProps nextProps =
     (path (file' prevProps) = path (file' nextProps) \<and>
      name (file' prevProps) = name (file' nextProps) \<and>
      mtime (stat (file' prevProps)) = mtime (stat (file' nextProps)) \<and>
      isSelected prevProps = isSelected nextProps \<and>
      hasSelectedAbove prevProps = hasSelectedAbove nextProps \<and>
      hasSelectedBelow prevProps = hasSelectedBelow nextProps \<and>
      dateGroup prevProps = dateGroup nextProps \<and>
      onClick prevProps = onClick nextProps \<and>
      formattedDate prevProps = formattedDate nextProps \<and>
      parentFolder prevProps = parentFolder nextProps)"

definition rerenders :: "FileItemProps \<Rightarrow> FileItemProps \<Rightarrow> bool" where
  "rerenders prevProps nextProps = (\<not> propsAreEqual prevProps nextProps)"

subsection \<open>Feature image\<close>

text \<open>
  A frontmatter value is whatever the YAML of the note holds (the host types it
  \<open>any\<close>): a string, a number, a boolean, \<open>null\<close> or a list, among others.
  \<open>truthy\<close> is the JavaScript condition \<open>if (value)\<close> on it.
\<close>

datatype FrontmatterValue =
  FmString jsstring | FmNumber int | FmBoolean bool | FmNull | FmList "jsstring list"

fun truthy :: "FrontmatterValue \<Rightarrow> bool" where
  "truthy (FmString s) = (s \<noteq> [])"
| "truthy (FmNumber n) = (n \<noteq> 0)"
| "truthy (FmBoolean b) = b"
| "truthy FmNull = False"
| "truthy (FmList xs) = True"

record EmbedCache =
  link :: jsstring

record CachedMetadata =
  frontmatter :: "(jsstring \<rightharpoonup> FrontmatterValue) option"
  embeds :: "EmbedCache list option"

text \<open>
  The host calls. \<open>getFirstLinkpathDest(linkpath, sourcePath)\<close> gives a file or
  \<open>null\<close>; \<open>getResourcePath(file)\<close> gives a URL or throws (\<open>None\<close>). \<open>isImageFile\<close>
  (of \<open>fileTypeUtils\<close>, not part of the sources at hand) is a parameter.
\<close>

record App =
  getFirstLinkpathDest :: "jsstring \<Rightarrow> jsstring \<Rightarrow> TFile option"
  getResourcePath :: "TFile \<Rightarrow> jsstring option"

datatype JsError = TypeError

text \<open>
  \<open>metadata?.frontmatter?.[property]\<close>: the frontmatter is a plain object, so the read
  also finds the members of \<open>Object.prototype\<close>.
\<close>

definition frontmatterValue ::
    "CachedMetadata option \<Rightarrow> jsstring \<Rightarrow> FrontmatterValue propertyValue option" where
  "frontmatterValue metadata property =
     (case metadata of
        None \<Rightarrow> None
      | Some m \<Rightarrow> (case frontmatter m of None \<Rightarrow> None | Some fm \<Rightarrow> getProperty fm property))"

text \<open>
  The loop over \<open>settings.featureImageProperties\<close>. \<open>Inr None\<close>: the loop ended
  without a \<open>return\<close>. A truthy value that is not a string (a stored number, boolean
  or list, or an inherited member) has no \<open>startsWith\<close> method, and calling it throws
  a \<open>TypeError\<close>, which nothing catches.
\<close>

fun frontmatterImage ::
    "App \<Rightarrow> CachedMetadata option \<Rightarrow> TFile \<Rightarrow> jsstring list \<Rightarrow> JsError + jsstring option" where
  "frontmatterImage app metadata thisFile [] = Inr None"
| "frontmatterImage app metadata thisFile (property # rest) =
     (case frontmatterValue metadata property of
        None \<Rightarrow> frontmatterImage app metadata thisFile rest
      | Some (InheritedMember member) \<Rightarrow> Inl TypeError
      | Some (Stored imagePath) \<Rightarrow>
          if \<not> truthy imagePath then frontmatterImage app metadata thisFile rest
          else (case imagePath of
                  FmString s \<Rightarrow>
                    (let resolvedPath =
                           (if prefix (js ''[['') s \<and> suffix (js '']]'') s
                            then slice' 2 (- 2) s else s)
                     in case getFirstLinkpathDest app resolvedPath (path thisFile) of
                          None \<Rightarrow> frontmatterImage app metadata thisFile rest
                        | Some imageFile \<Rightarrow>
                            (case getResourcePath app imageFile of
                               Some url \<Rightarrow> Inr (Some url)
                             | None \<Rightarrow> frontmatterImage app metadata thisFile rest))
                | _ \<Rightarrow> Inl TypeError))"

text \<open>The loop over \<open>metadata.embeds\<close>; \<open>None\<close>: it ended without a \<open>return\<close>.\<close>

fun embeddedImage :: "(TFile \<Rightarrow> bool) \<Rightarrow> App \<Rightarrow> TFile \<Rightarrow> EmbedCache list \<Rightarrow> jsstring option" where
  "embeddedImage isImageFile app thisFile [] = None"
| "embeddedImage isImageFile app thisFile (embed' # rest) =
     (let embedPath = link embed'
      in case getFirstLinkpathDest app embedPath (path thisFile) of
           None \<Rightarrow> embeddedImage isImageFile app thisFile rest
         | Some embedFile \<Rightarrow>
             if isImageFile embedFile
             then (case getResourcePath app embedFile of
                     Some url \<Rightarrow> Some url
                   | None \<Rightarrow> embeddedImage isImageFile app thisFile rest)
             else embeddedImage isImageFile app thisFile rest)"

text \<open>
  The body of the \<open>useMemo\<close> that computes \<open>featureImageUrl\<close>: \<open>Inr None\<close> is
  \<open>null\<close>, \<open>Inl\<close> an exception that leaves the computation.
\<close>

definition featureImageUrl ::
    "(TFile \<Rightarrow> bool) \<Rightarrow> App \<Rightarrow> NotebookNavigatorSettings \<Rightarrow> CachedMetadata option \<Rightarrow> TFile
       \<Rightarrow> JsError + jsstring option" where
  "featureImageUrl isImageFile app settings metadata thisFile =
     (if \<not> showFeatureImage settings then Inr None
      else if isImageFile thisFile then Inr (getResourcePath app thisFile)
      else if extension thisFile = js ''md'' then
        (case frontmatterImage app metadata thisFile (featureImageProperties settings) of
           Inl e \<Rightarrow> Inl e
         | Inr (Some url) \<Rightarrow> Inr (Some url)
         | Inr None \<Rightarrow>
             (case (case metadata of None \<Rightarrow> None | Some m \<Rightarrow> embeds m) of
                None \<Rightarrow> Inr None
              | Some es \<Rightarrow>
                  if length es > 0
                  then (case embeddedImage isImageFile app thisFile es of
                          Some url \<Rightarrow> Inr (Some url)
                        | None \<Rightarrow> Inr None)
                  else Inr None))
      else Inr None)"

text \<open>
  The priority as the specification words it, for comparison with \<open>featureImageUrl\<close>: a
  candidate is a URL or absent, and the first candidate present wins. The candidate of
  a frontmatter property is the resource path of the file that its value (the field the
  note stores under the property name, \<open>frontmatterField\<close>), a string with the wikilink
  brackets taken off, resolves to; the candidate of an embedded reference is the resource
  path of the image file it resolves to.
\<close>

definition firstPresent :: "('a \<Rightarrow> 'b option) \<Rightarrow> 'a list \<Rightarrow> 'b option" where
  "firstPresent candidate xs =
     (case List.find (\<lambda>x. candidate x \<noteq> None) xs of None \<Rightarrow> None | Some x \<Rightarrow> candidate x)"

definition unwrapWikilink :: "jsstring \<Rightarrow> jsstring" where
  "unwrapWikilink s =
     (if prefix (js ''[['') s \<and> suffix (js '']]'') s
      then take (length s - 4) (drop 2 s) else s)"

definition frontmatterField :: "CachedMetadata option \<Rightarrow> jsstring \<Rightarrow> FrontmatterValue option" where
  "frontmatterField metadata property =
     (case metadata of
        None \<Rightarrow> None
      | Some m \<Rightarrow> (case frontmatter m of None \<Rightarrow> None | Some fm \<Rightarrow> fm property))"

definition propertyCandidate :: "App \<Rightarrow> CachedMetadata option \<Rightarrow> TFile \<Rightarrow> jsstring \<Rightarrow> jsstring option" where
  "propertyCandidate app metadata thisFile property =
     (case frontmatterField metadata property of
        Some (FmString s) \<Rightarrow>
          (if s = [] then None
           else (case getFirstLinkpathDest app (unwrapWikilink s) (path thisFile) of
                   None \<Rightarrow> None
                 | Some imageFile \<Rightarrow> getResourcePath app imageFile))
      | _ \<Rightarrow> None)"

definition embedCandidate :: "(TFile \<Rightarrow> bool) \<Rightarrow> App \<Rightarrow> TFile \<Rightarrow> EmbedCache \<Rightarrow> jsstring option" where
  "embedCandidate isImageFile app thisFile embed' =
     (case getFirstLinkpathDest app (link embed') (path thisFile) of
        None \<Rightarrow> None
      | Some embedFile \<Rightarrow> if isImageFile embedFile then getResourcePath app embedFile else None)"

definition featureImagePriority ::
    "(TFile \<Rightarrow> bool) \<Rightarrow> App \<Rightarrow> NotebookNavigatorSettings \<Rightarrow> CachedMetadata option \<Rightarrow> TFile
       \<Rightarrow> jsstring option" where
  "featureImagePriority isImageFile app settings metadata thisFile =
     (if isImageFile thisFile then getResourcePath app thisFile
      else if extension thisFile = js ''md'' then
        (case firstPresent (propertyCandidate app metadata thisFile) (featureImageProperties settings) of
           Some url \<Rightarrow> Some url
         | None \<Rightarrow>
             firstPresent (embedCandidate isImageFile app thisFile)
               (case metadata of None \<Rightarrow> [] | Some m \<Rightarrow> (case embeds m of None \<Rightarrow> [] | Some es \<Rightarrow> es)))
      else None)"

text \<open>
  A configured property is harmless when the read of the frontmatter gives nothing, a
  stored string or a stored falsy value. On the others (a stored truthy value that is not
  a string, or an inherited member) the loop over the properties throws.
\<close>

definition stringOrFalsy :: "CachedMetadata option \<Rightarrow> jsstring \<Rightarrow> bool" where
  "stringOrFalsy metadata property =
     (case frontmatterValue metadata property of
        None \<Rightarrow> True
      | Some (InheritedMember member) \<Rightarrow> False
      | Some (Stored (FmString s)) \<Rightarrow> True
      | Some (Stored v) \<Rightarrow> \<not> truthy v)"

section \<open>Icon utilities (iconUtils)\<close>

text \<open>
  The character classes of \<open>emojiRegex\<close>, in the order of its alternatives. The regular
  expression has the \<open>u\<close> flag and no anchor: \<open>test\<close> succeeds when some code point of
  the string lies in one of the ranges.
\<close>

definition emojiRanges :: "(nat \<times> nat) list" where
  "emojiRanges =
     [(0x1F600, 0x1F64F), (0x1F300, 0x1F5FF), (0x1F680, 0x1F6FF), (0x1F1E0, 0x1F1FF),
      (0x2600, 0x26FF), (0x2700, 0x27BF), (0x1F900, 0x1F9FF), (0x1F018, 0x1F270),
      (0x238C, 0x2454), (0x20D0, 0x20FF)]"

definition emojiRegexTest :: "jsstring \<Rightarrow> bool" where
  "emojiRegexTest s =
     list_ex (\<lambda>cp. list_ex (\<lambda>(lo, hi). lo \<le> cp \<and> cp \<le> hi) emojiRanges) (codePoints s)"

fun isEmoji :: "jsvalue \<Rightarrow> bool" where
  "isEmoji (JSString icon) = (if icon = [] then False else emojiRegexTest icon)"
| "isEmoji JSNonString = False"

section \<open>Emoji picker (EmojiPicker)\<close>

text \<open>
  The component state is \<open>inputValue\<close>, initially empty. \<open>handleInputChange\<close> gives the
  next \<open>inputValue\<close> for the text of the input element; \<open>handleSubmit\<close> gives the
  argument of the call of \<open>onSelectEmoji\<close>, or \<open>None\<close> when the callback is not called.
\<close>

definition handleInputChange :: "jsstring \<Rightarrow> jsstring" where
  "handleInputChange value =
     (let firstChar =
            slice' 0 (if length (stringIterator value) > 0
                     then int (length (hd (stringIterator value))) else 0) value
      in firstChar)"

definition handleSubmit :: "jsstring \<Rightarrow> jsstring option" where
  "handleSubmit inputValue =
     (if inputValue \<noteq> [] \<and> isEmoji (JSString inputValue) then Some inputValue else None)"

definition handleKeyPress :: "jsstring \<Rightarrow> jsstring \<Rightarrow> jsstring option" where
  "handleKeyPress key inputValue = (if key = js ''Enter'' then handleSubmit inputValue else None)"

text \<open>
  The events of the text field and its button, and a run of the component from a state:
  the list of the arguments \<open>onSelectEmoji\<close> was called with. The button is disabled
  exactly when \<open>handleSubmit\<close> would not call the callback.
\<close>

datatype InputEvent = Change jsstring | KeyPress jsstring | ClickSubmit

fun runEmojiInput :: "jsstring \<Rightarrow> InputEvent list \<Rightarrow> jsstring list" where
  "runEmojiInput inputValue [] = []"
| "runEmojiInput inputValue (Change value # events) =
     runEmojiInput (handleInputChange value) events"
| "runEmojiInput inputValue (KeyPress key # events) =
     (case handleKeyPress key inputValue of
        Some emoji \<Rightarrow> emoji # runEmojiInput inputValue events
      | None \<Rightarrow> runEmojiInput inputValue events)"
| "runEmojiInput inputValue (ClickSubmit # events) =
     (case handleSubmit inputValue of
        Some emoji \<Rightarrow> emoji # runEmojiInput inputValue events
      | None \<Rightarrow> runEmojiInput inputValue events)"

section \<open>Icon picker modal (IconPickerModal)\<close>

subsection \<open>State and constructor\<close>

datatype ActiveTab = Icons | Emojis

record IconPickerModal =
  itemPath :: jsstring
  itemType :: NavigationItemType
  allIcons :: "jsstring list"
  recentlyUsedIcons :: "jsstring list"
  recentlyUsedEmojis :: "jsstring list"
  focusedIndex :: int
  gridColumns :: int
  activeTab :: ActiveTab
  searchInputValue :: jsstring
  hasOnChooseIcon :: bool

text \<open>
  The constructor; \<open>getIconIds\<close> is the host's icon catalog at the time of the call. The
  field initialisers of the class give the other fields their values; the search input is
  created empty by \<open>onOpen\<close>. \<open>searchInputValue\<close> is the text of the search input and
  \<open>hasOnChooseIcon\<close> tells whether the caller has set the optional callback
  \<open>onChooseIcon\<close>, which it does after the construction.
\<close>

definition newIconPickerModal ::
    "jsstring list \<Rightarrow> jsstring \<Rightarrow> jsstring list \<Rightarrow> NavigationItemType \<Rightarrow> IconPickerModal" where
  "newIconPickerModal getIconIds itemPath' recentlyUsed itemType' =
     \<lparr>itemPath = itemPath',
      itemType = itemType',
      allIcons = getIconIds,
      recentlyUsedIcons =
        filter (\<lambda>item. \<not> isEmoji (JSString item) \<and> item \<in> set getIconIds) recentlyUsed,
      recentlyUsedEmojis = filter (\<lambda>item. isEmoji (JSString item)) recentlyUsed,
      focusedIndex = - 1,
      gridColumns = 5,
      activeTab = Icons,
      searchInputValue = [],
      hasOnChooseIcon = False\<rparr>"

subsection \<open>Grid keyboard navigation\<close>

datatype Key = TabKey bool | ArrowLeft | ArrowRight | ArrowUp | ArrowDown | Enter | Space | OtherKey

text \<open>
  \<open>TabKey shift\<close> is the Tab key, with the shift key down when \<open>shift\<close> holds.
  The \<open>switch\<close> of \<open>contentElKeydownHandler\<close> as far as it computes \<open>newIndex\<close>, for a
  grid of \<open>n\<close> icon items of which the item \<open>currentIndex\<close> has the focus. Indices are
  JavaScript numbers holding integers (\<open>indexOf\<close> may give \<open>-1\<close>), and \<open>%\<close> is the
  remainder that truncates towards zero, \<open>smod\<close>. The keys that are not arrows leave
  \<open>newIndex\<close> at \<open>currentIndex\<close>.
\<close>

fun newIndex :: "IconPickerModal \<Rightarrow> int \<Rightarrow> Key \<Rightarrow> int \<Rightarrow> int" where
  "newIndex modal n ArrowLeft currentIndex =
     (if currentIndex smod gridColumns modal > 0 then currentIndex - 1 else currentIndex)"
| "newIndex modal n ArrowRight currentIndex =
     (if currentIndex smod gridColumns modal < gridColumns modal - 1 \<and> currentIndex < n - 1
      then currentIndex + 1 else currentIndex)"
| "newIndex modal n ArrowUp currentIndex =
     (if currentIndex \<ge> gridColumns modal then currentIndex - gridColumns modal
      else currentIndex)"
| "newIndex modal n ArrowDown currentIndex =
     (if currentIndex + gridColumns modal < n then currentIndex + gridColumns modal
      else currentIndex)"
| "newIndex modal n _ currentIndex = currentIndex"

text \<open>
  \<open>contentElKeydownHandler\<close> when the grid has \<open>n > 0\<close> icon items and the focused
  element is the item \<open>currentIndex\<close> of the grid: the modal with its tracked
  \<open>focusedIndex\<close>, and the element that has the focus afterwards. Shift+Tab moves the
  focus to the search input; the focus moves inside the grid only when the new index
  differs and lies inside the item list. (Enter and Space start \<open>selectIcon\<close>, which is
  modelled below, and leave the focus where it is.)
\<close>

datatype Focus = SearchInput | GridItem int

definition contentElKeydownHandler ::
    "IconPickerModal \<Rightarrow> int \<Rightarrow> Key \<Rightarrow> int \<Rightarrow> IconPickerModal \<times> Focus" where
  "contentElKeydownHandler modal n key currentIndex =
     (let (modal1, focus1) =
            (if key = TabKey True then (modal\<lparr>focusedIndex := - 1\<rparr>, SearchInput)
             else (modal, GridItem currentIndex));
          newIdx = newIndex modal n key currentIndex
      in if newIdx \<noteq> currentIndex \<and> newIdx \<ge> 0 \<and> newIdx < n
         then (modal1\<lparr>focusedIndex := newIdx\<rparr>, GridItem newIdx)
         else (modal1, focus1))"

text \<open>The focus after a key, and whether a key is one of the four arrows.\<close>

definition focusAfterKey :: "IconPickerModal \<Rightarrow> int \<Rightarrow> Key \<Rightarrow> int \<Rightarrow> Focus" where
  "focusAfterKey modal n key currentIndex = snd (contentElKeydownHandler modal n key currentIndex)"

definition isArrow :: "Key \<Rightarrow> bool" where
  "isArrow key = (key = ArrowLeft \<or> key = ArrowRight \<or> key = ArrowUp \<or> key = ArrowDown)"

subsection \<open>Search results\<close>

text \<open>
  \<open>String.prototype.trim\<close> removes the white space and line terminators of the language
  from both ends.
\<close>

definition isWhiteSpace :: "16 word \<Rightarrow> bool" where
  "isWhiteSpace u =
     (u \<in> {0x09, 0x0A, 0x0B, 0x0C, 0x0D, 0x20, 0xA0, 0x1680, 0x2028, 0x2029, 0x202F, 0x205F,
            0x3000, 0xFEFF}
      \<or> (0x2000 \<le> u \<and> u \<le> 0x200A))"

definition trim :: "jsstring \<Rightarrow> jsstring" where
  "trim s = rev (dropWhile isWhiteSpace (rev (dropWhile isWhiteSpace s)))"

text \<open>\<open>s.split(sep)\<close> for a separator of one code unit, and \<open>xs.join(sep)\<close>.\<close>

fun splitOn :: "'a \<Rightarrow> 'a list \<Rightarrow> 'a list list" where
  "splitOn sep [] = [[]]"
| "splitOn sep (c # cs) =
     (if c = sep then [] # splitOn sep cs
      else (case splitOn sep cs of w # ws \<Rightarrow> (c # w) # ws | [] \<Rightarrow> [[c]]))"

fun joinWith :: "'a list \<Rightarrow> 'a list list \<Rightarrow> 'a list" where
  "joinWith sep [] = []"
| "joinWith sep [w] = w"
| "joinWith sep (w # ws) = w @ sep @ joinWith sep ws"

text \<open>\<open>s.charAt(i)\<close>: the code unit at \<open>i\<close> as a string, the empty string out of range.\<close>

definition charAt :: "nat \<Rightarrow> jsstring \<Rightarrow> jsstring" where
  "charAt i s = take 1 (drop i s)"

text \<open>
  \<open>subject.replace(pattern, replacement)\<close> with a string pattern: the first occurrence
  is replaced. (The replacement strings used here hold digits only, so none of the
  \<open>$\<close> patterns of \<open>replace\<close> occurs.)
\<close>

fun replaceFirst :: "'a list \<Rightarrow> 'a list \<Rightarrow> 'a list \<Rightarrow> 'a list" where
  "replaceFirst pattern replacement [] = (if pattern = [] then replacement else [])"
| "replaceFirst pattern replacement (c # cs) =
     (if prefix pattern (c # cs) then replacement @ drop (length pattern) (c # cs)
      else c # replaceFirst pattern replacement cs)"

text \<open>\<open>n.toString()\<close> for a length: the decimal digits.\<close>

fun toString :: "nat \<Rightarrow> jsstring" where
  "toString n =
     (if n < 10 then [of_nat (48 + n)] else toString (n div 10) @ [of_nat (48 + n mod 10)])"

text \<open>
  \<open>getIconDisplayName\<close>. The platform's \<open>toUpperCase\<close> and \<open>toLowerCase\<close> (the case
  tables of Unicode) are parameters of the functions that call them.
\<close>

definition getIconDisplayName :: "(jsstring \<Rightarrow> jsstring) \<Rightarrow> jsstring \<Rightarrow> jsstring" where
  "getIconDisplayName toUpperCase iconId =
     (let name' = (if prefix (js ''lucide-'') iconId then drop 7 iconId else iconId)
      in joinWith (js '' '')
           (map (\<lambda>word. toUpperCase (charAt 0 word) @ sliceFrom 1 word)
              (splitOn 0x2D name')))"

text \<open>
  The strings of \<open>strings.modals.iconPicker\<close> that \<open>updateResults\<close> reads, from the
  locale table in use.
\<close>

record IconPickerStrings =
  recentlyUsedHeader :: jsstring
  emptyStateSearch :: jsstring
  emptyStateNoResults :: jsstring
  showingResultsInfo :: jsstring

text \<open>The French table (\<open>locales/fr.ts\<close>); the accented letters are written as code units.\<close>

definition stringsFr :: IconPickerStrings where
  "stringsFr =
     \<lparr>recentlyUsedHeader = js ''R'' @ [0xE9] @ js ''cemment utilis'' @ [0xE9] @ js ''es'',
      emptyStateSearch =
        js ''Commencez '' @ [0xE0] @ js '' taper pour rechercher des ic'' @ [0xF4] @ js ''nes'',
      emptyStateNoResults = js ''Aucune ic'' @ [0xF4] @ js ''ne trouv'' @ [0xE9] @ js ''e'',
      showingResultsInfo =
        js ''Affichage de 50 r'' @ [0xE9] @ js ''sultats sur {count}. Tapez plus pour affiner.''\<rparr>"

text \<open>
  The elements \<open>updateResults\<close> puts into the results container. An icon item carries
  its \<open>data-icon-id\<close> and the text of its name.
\<close>

datatype IconItem = IconItem (iconId: jsstring) (iconName: jsstring)

datatype Element =
    SectionHeader jsstring
  | IconGrid "IconItem list"
  | EmptyMessage jsstring
  | MoreMessage jsstring
  | EmojiPickerContainer "jsstring list"

definition createIconItem :: "(jsstring \<Rightarrow> jsstring) \<Rightarrow> jsstring \<Rightarrow> IconItem" where
  "createIconItem toUpperCase iconId' = IconItem iconId' (getIconDisplayName toUpperCase iconId')"

text \<open>
  \<open>updateResults\<close> with the results container in place: the modal with the focus index
  reset, and the children of the emptied container.
\<close>

definition updateResults ::
    "(jsstring \<Rightarrow> jsstring) \<Rightarrow> (jsstring \<Rightarrow> jsstring) \<Rightarrow> IconPickerStrings \<Rightarrow> IconPickerModal
       \<Rightarrow> IconPickerModal \<times> Element list" where
  "updateResults toLowerCase toUpperCase strings modal =
     (let modal' = modal\<lparr>focusedIndex := - 1\<rparr>
      in if activeTab modal = Emojis
         then (modal', [EmojiPickerContainer (recentlyUsedEmojis modal)])
         else
           (let searchTerm = trim (toLowerCase (searchInputValue modal))
            in if searchTerm = []
               then (if length (recentlyUsedIcons modal) > 0
                     then (modal',
                           [SectionHeader (recentlyUsedHeader strings),
                            IconGrid (map (createIconItem toUpperCase) (recentlyUsedIcons modal))])
                     else (modal', [EmptyMessage (emptyStateSearch strings)]))
               else
                 (let matchingIcons =
                        filter (\<lambda>iconId'.
                            let iconName' = getIconDisplayName toUpperCase iconId'
                            in sublist searchTerm (toLowerCase iconName')
                               \<or> sublist searchTerm (toLowerCase iconId'))
                          (allIcons modal)
                  in if length matchingIcons > 0
                     then (modal',
                           IconGrid (map (createIconItem toUpperCase) (slice' 0 50 matchingIcons))
                           # (if length matchingIcons > 50
                              then [MoreMessage
                                      (replaceFirst (js ''{count}'') (toString (length matchingIcons))
                                         (showingResultsInfo strings))]
                              else []))
                     else (modal', [EmptyMessage (emptyStateNoResults strings)]))))"

text \<open>
  What a list of elements shows: the identifiers of its icon items in order, and the
  texts of its overflow messages.
\<close>

fun shownIcons :: "Element list \<Rightarrow> jsstring list" where
  "shownIcons [] = []"
| "shownIcons (IconGrid items # es) = map iconId items @ shownIcons es"
| "shownIcons (_ # es) = shownIcons es"

fun moreMessages :: "Element list \<Rightarrow> jsstring list" where
  "moreMessages [] = []"
| "moreMessages (MoreMessage message # es) = message # moreMessages es"
| "moreMessages (_ # es) = moreMessages es"

text \<open>
  The case mappings of the platform on ASCII letters, every other code unit unchanged:
  what \<open>toLowerCase\<close> and \<open>toUpperCase\<close> do on ASCII strings. They instantiate the two
  parameters in the examples.
\<close>

definition asciiLower :: "jsstring \<Rightarrow> jsstring" where
  "asciiLower s = map (\<lambda>u. if 0x41 \<le> u \<and> u \<le> 0x5A then u + 0x20 else u) s"

definition asciiUpper :: "jsstring \<Rightarrow> jsstring" where
  "asciiUpper s = map (\<lambda>u. if 0x61 \<le> u \<and> u \<le> 0x7A then u - 0x20 else u) s"

subsection \<open>Selecting an icon\<close>

text \<open>
  \<open>selectIcon\<close> is an \<open>async\<close> function: it calls the metadata service, and the rest of
  its body runs when the returned promise is fulfilled; when the promise is rejected the
  \<open>await\<close> throws and the body is left; while the promise is pending nothing runs. The
  model gives the events of one call in the order they happen, for each way the promise
  of the service can go. (The callback \<open>onChooseIcon\<close> is taken to return normally.)
\<close>

datatype Settlement = Fulfilled | Rejected | Pending

datatype ModalEvent =
    SetTagIcon jsstring jsstring
  | SetFolderIcon jsstring jsstring
  | AssignmentFulfilled
  | AssignmentRejected
  | OnChooseIcon jsstring
  | Close

definition selectIcon :: "IconPickerModal \<Rightarrow> Settlement \<Rightarrow> jsstring \<Rightarrow> ModalEvent list" where
  "selectIcon modal settlement iconId' =
     (if itemType modal = TAG then SetTagIcon (itemPath modal) iconId'
      else SetFolderIcon (itemPath modal) iconId')
     # (case settlement of
          Fulfilled \<Rightarrow>
            AssignmentFulfilled
            # (if hasOnChooseIcon modal then [OnChooseIcon iconId'] else []) @ [Close]
        | Rejected \<Rightarrow> [AssignmentRejected]
        | Pending \<Rightarrow> [])"

text \<open>The events of a list before the first \<open>Close\<close> (all of them when there is none).\<close>

definition beforeClose :: "ModalEvent list \<Rightarrow> ModalEvent list" where
  "beforeClose events = takeWhile (\<lambda>e. e \<noteq> Close) events"

section \<open>Facts about the JavaScript primitives\<close>

lemma slice_0_take: "0 \<le> k \<Longrightarrow> slice' 0 k xs = take (nat k) xs"
  by (simp add: slice'_def Let_def min_def)

lemma stringIterator_Nil_iff: "stringIterator s = [] \<longleftrightarrow> s = []"
  by (cases s rule: stringIterator.cases) simp_all

lemma handleInputChange_take:
  "handleInputChange v = take (case stringIterator v of [] \<Rightarrow> 0 | c # _ \<Rightarrow> length c) v"
  by (cases "stringIterator v") (simp_all add: handleInputChange_def slice_0_take)

lemma stringIterator_handleInputChange:
  "stringIterator (handleInputChange v) = take 1 (stringIterator v)"
  by (cases v rule: stringIterator.cases) (simp_all add: handleInputChange_take)

lemma codePoints_handleInputChange:
  "codePoints (handleInputChange v) = take 1 (codePoints v)"
  by (simp add: codePoints_def stringIterator_handleInputChange take_map)

lemma prefix_handleInputChange: "prefix (handleInputChange v) v"
  by (simp add: handleInputChange_take take_is_prefix)

lemma handleSubmit_Some:
  "handleSubmit x = Some e \<Longrightarrow> e = x \<and> x \<noteq> [] \<and> isEmoji (JSString x)"
  by (auto simp: handleSubmit_def split: if_splits)

lemma handleKeyPress_Some:
  "handleKeyPress key x = Some e \<Longrightarrow> e = x \<and> x \<noteq> [] \<and> isEmoji (JSString x)"
  by (auto simp: handleKeyPress_def dest: handleSubmit_Some split: if_splits)

lemma codePoints_Nil_iff: "codePoints s = [] \<longleftrightarrow> s = []"
  by (simp add: codePoints_def stringIterator_Nil_iff)

lemma runEmojiInput_invariant:
  "length (codePoints inputValue) \<le> 1 \<Longrightarrow> e \<in> set (runEmojiInput inputValue events)
   \<Longrightarrow> length (codePoints e) = 1 \<and> isEmoji (JSString e)"
proof (induction inputValue events rule: runEmojiInput.induct)
  case (1 inputValue)
  then show ?case by simp
next
  case (2 inputValue v events)
  have "length (codePoints (handleInputChange v)) \<le> 1"
    by (simp add: codePoints_handleInputChange)
  with 2 show ?case by (simp del: isEmoji.simps)
next
  case (3 inputValue key events)
  show ?case
  proof (cases "handleKeyPress key inputValue")
    case None
    with 3 show ?thesis by (simp del: isEmoji.simps)
  next
    case (Some emoji)
    from handleKeyPress_Some [OF Some]
    have em: "emoji = inputValue" "inputValue \<noteq> []" "isEmoji (JSString inputValue)"
      by simp_all
    then have "codePoints inputValue \<noteq> []" by (simp add: codePoints_Nil_iff)
    with "3.prems"(1) have one: "length (codePoints inputValue) = 1"
      by (cases "codePoints inputValue") simp_all
    from "3.prems"(2) Some consider "e = emoji" | "e \<in> set (runEmojiInput inputValue events)"
      by auto
    then show ?thesis
    proof cases
      case 1
      with em one show ?thesis by (simp del: isEmoji.simps)
    next
      case 2
      with "3.IH"(2) [OF Some "3.prems"(1)] show ?thesis by (simp del: isEmoji.simps)
    qed
  qed
next
  case (4 inputValue events)
  show ?case
  proof (cases "handleSubmit inputValue")
    case None
    with 4 show ?thesis by (simp del: isEmoji.simps)
  next
    case (Some emoji)
    from handleSubmit_Some [OF Some]
    have em: "emoji = inputValue" "inputValue \<noteq> []" "isEmoji (JSString inputValue)"
      by simp_all
    then have "codePoints inputValue \<noteq> []" by (simp add: codePoints_Nil_iff)
    with "4.prems"(1) have one: "length (codePoints inputValue) = 1"
      by (cases "codePoints inputValue") simp_all
    from "4.prems"(2) Some consider "e = emoji" | "e \<in> set (runEmojiInput inputValue events)"
      by auto
    then show ?thesis
    proof cases
      case 1
      with em one show ?thesis by (simp del: isEmoji.simps)
    next
      case 2
      with "4.IH"(2) [OF Some "4.prems"(1)] show ?thesis by (simp del: isEmoji.simps)
    qed
  qed
qed

section \<open>Effective sort option\<close>

lemma lookupOverride_None [simp]: "lookupOverride None key = None"
  by (simp add: lookupOverride_def)



text \<open>
  A key that names a member of \<open>Object.prototype\<close> and has no stored override: the read
  finds the inherited member, and the function returns it instead of the default. Here
  the selected folder is a top-level folder named \<open>constructor\<close>.
\<close>

lemma getEffectiveSortOption_inherited_member:
  "getEffectiveSortOption
     \<lparr>defaultFolderSort = ModifiedDesc,
      folderSortOverrides = Some Map.empty,
      tagSortOverrides = None,
      showFeatureImage = True, featureImageProperties = []\<rparr>
     FOLDER (Some \<lparr>path = js ''constructor'', name = js ''constructor''\<rparr>) None
   = InheritedMember (js ''constructor'')"
  by (simp add: getEffectiveSortOption_def lookupOverride_def getProperty_def
      objectPrototypeKeys_def)




section \<open>Grid navigation\<close>

lemma smod_nonneg_pos:
  fixes a b :: int
  assumes "0 \<le> a" "0 < b"
  shows "a smod b = a mod b"
  using assms by (simp add: signed_modulo_int_def sgn_if)

lemma gridColumns_new [simp]: "gridColumns (newIconPickerModal icons p r t) = 5"
  by (simp add: newIconPickerModal_def)

lemma focusAfterKey_arrow:
  "isArrow key \<Longrightarrow>
   focusAfterKey modal n key currentIndex =
     GridItem (if newIndex modal n key currentIndex \<noteq> currentIndex
                  \<and> 0 \<le> newIndex modal n key currentIndex
                  \<and> newIndex modal n key currentIndex < n
               then newIndex modal n key currentIndex else currentIndex)"
  by (auto simp: isArrow_def focusAfterKey_def contentElKeydownHandler_def Let_def)

text \<open>
  C5. On a grid of \<open>n\<close> items in a positive number of columns (the modal is built with
  5), from a focus index in \<open>[0, n)\<close>, every arrow key leaves the focus on a grid item
  with an index in \<open>[0, n)\<close>; left and right move one cell inside the row, up and down
  move by the column count, and a step whose target is outside the bounds leaves the
  focus where it was. With the 5 columns of a new modal and 12 items, down goes from 0
  to 5, from 5 to 10, and stays at 10.
\<close>

theorem focusAfterKey_in_bounds:
  assumes "0 < gridColumns modal" and "0 \<le> currentIndex" and "currentIndex < n"
  shows "(isArrow key \<longrightarrow>
           (\<exists>i. focusAfterKey modal n key currentIndex = GridItem i \<and> 0 \<le> i \<and> i < n))
    \<and> focusAfterKey modal n ArrowLeft currentIndex =
        GridItem (if currentIndex mod gridColumns modal = 0 then currentIndex
                  else currentIndex - 1)
    \<and> focusAfterKey modal n ArrowRight currentIndex =
        GridItem (if currentIndex mod gridColumns modal = gridColumns modal - 1
                     \<or> n \<le> currentIndex + 1
                  then currentIndex else currentIndex + 1)
    \<and> focusAfterKey modal n ArrowUp currentIndex =
        GridItem (if currentIndex - gridColumns modal < 0 then currentIndex
                  else currentIndex - gridColumns modal)
    \<and> focusAfterKey modal n ArrowDown currentIndex =
        GridItem (if n \<le> currentIndex + gridColumns modal then currentIndex
                  else currentIndex + gridColumns modal)
    \<and> focusAfterKey (newIconPickerModal icons p r t) 12 ArrowDown 0 = GridItem 5
    \<and> focusAfterKey (newIconPickerModal icons p r t) 12 ArrowDown 5 = GridItem 10
    \<and> focusAfterKey (newIconPickerModal icons p r t) 12 ArrowDown 10 = GridItem 10"
proof -
  have m: "currentIndex smod gridColumns modal = currentIndex mod gridColumns modal"
    using assms by (simp add: smod_nonneg_pos)
  have lo: "0 \<le> currentIndex mod gridColumns modal"
    and hi: "currentIndex mod gridColumns modal < gridColumns modal"
    using assms by simp_all
  have left: "focusAfterKey modal n ArrowLeft currentIndex =
        GridItem (if currentIndex mod gridColumns modal = 0 then currentIndex
                  else currentIndex - 1)"
  proof (cases "currentIndex mod gridColumns modal = 0")
    case True
    then show ?thesis by (simp add: focusAfterKey_arrow isArrow_def m)
  next
    case False
    with lo have pos: "0 < currentIndex mod gridColumns modal" by linarith
    have "currentIndex \<noteq> 0" using False by auto
    with assms have "1 \<le> currentIndex" by linarith
    with pos assms show ?thesis by (simp add: focusAfterKey_arrow isArrow_def m)
  qed
  have right: "focusAfterKey modal n ArrowRight currentIndex =
        GridItem (if currentIndex mod gridColumns modal = gridColumns modal - 1
                     \<or> n \<le> currentIndex + 1
                  then currentIndex else currentIndex + 1)"
  proof -
    have "currentIndex mod gridColumns modal < gridColumns modal - 1
        \<longleftrightarrow> currentIndex mod gridColumns modal \<noteq> gridColumns modal - 1"
      using hi by linarith
    then show ?thesis using assms by (simp add: focusAfterKey_arrow isArrow_def m)
  qed
  have up: "focusAfterKey modal n ArrowUp currentIndex =
        GridItem (if currentIndex - gridColumns modal < 0 then currentIndex
                  else currentIndex - gridColumns modal)"
    using assms by (simp add: focusAfterKey_arrow isArrow_def)
  have down: "focusAfterKey modal n ArrowDown currentIndex =
        GridItem (if n \<le> currentIndex + gridColumns modal then currentIndex
                  else currentIndex + gridColumns modal)"
    using assms by (simp add: focusAfterKey_arrow isArrow_def)
  have bounds: "isArrow key \<longrightarrow>
           (\<exists>i. focusAfterKey modal n key currentIndex = GridItem i \<and> 0 \<le> i \<and> i < n)"
    using assms by (auto simp: focusAfterKey_arrow)
  have ex: "focusAfterKey (newIconPickerModal icons p r t) 12 ArrowDown 0 = GridItem 5"
    "focusAfterKey (newIconPickerModal icons p r t) 12 ArrowDown 5 = GridItem 10"
    "focusAfterKey (newIconPickerModal icons p r t) 12 ArrowDown 10 = GridItem 10"
    by (simp_all add: focusAfterKey_arrow isArrow_def)
  from bounds left right up down ex show ?thesis by blast
qed

theorem focusAfterKey_in_bounds_witness:
  "focusAfterKey (newIconPickerModal [] [] [] FOLDER) 12 ArrowRight 11 = GridItem 11
   \<and> focusAfterKey (newIconPickerModal [] [] [] FOLDER) 12 ArrowLeft 11 = GridItem 10
   \<and> focusAfterKey (newIconPickerModal [] [] [] FOLDER) 12 ArrowUp 11 = GridItem 6
   \<and> focusAfterKey (newIconPickerModal [] [] [] FOLDER) 12 ArrowDown 11 = GridItem 11
   \<and> focusAfterKey (newIconPickerModal [] [] [] FOLDER) 12 ArrowRight 4 = GridItem 4
   \<and> focusAfterKey (newIconPickerModal [] [] [] FOLDER) 12 ArrowLeft 5 = GridItem 5"
  using focusAfterKey_in_bounds [of "newIconPickerModal [] [] [] FOLDER" 11 12 ArrowDown]
    focusAfterKey_in_bounds [of "newIconPickerModal [] [] [] FOLDER" 4 12 ArrowRight]
    focusAfterKey_in_bounds [of "newIconPickerModal [] [] [] FOLDER" 5 12 ArrowLeft]
  by simp

section \<open>Memoization of the file item\<close>

text \<open>
  C8 (as amended). New props cause a render exactly when one of these differs: the
  path, the name or the modification time of the file, one of the three selection flags,
  the date group, the click handler (as a reference), the formatted date, or the parent
  folder. A change of the other inputs (the base name, the extension and the creation
  time of the file) is ignored.
\<close>

theorem rerenders_iff:
  "rerenders prevProps nextProps =
     (\<not> (path (file' prevProps) = path (file' nextProps)
         \<and> name (file' prevProps) = name (file' nextProps)
         \<and> mtime (stat (file' prevProps)) = mtime (stat (file' nextProps))
         \<and> isSelected prevProps = isSelected nextProps
         \<and> hasSelectedAbove prevProps = hasSelectedAbove nextProps
         \<and> hasSelectedBelow prevProps = hasSelectedBelow nextProps
         \<and> dateGroup prevProps = dateGroup nextProps
         \<and> onClick prevProps = onClick nextProps
         \<and> formattedDate prevProps = formattedDate nextProps
         \<and> parentFolder prevProps = parentFolder nextProps))
   \<and> \<not> rerenders prevProps
         (prevProps\<lparr>file' := (file' prevProps)
            \<lparr>basename := b, extension := e, stat := (stat (file' prevProps))\<lparr>ctime := c\<rparr>\<rparr>\<rparr>)"
  by (simp add: rerenders_def propsAreEqual_def)

text \<open>
  C8 (as stated) fails: two props that agree on the path, the name and the modification
  time of the file, on the selection flags, the date group, the click handler and the
  formatted date, and differ in the parent folder only, cause a render.
\<close>

theorem rerenders_parentFolder_counterexample:
  "rerenders
     \<lparr>file' = \<lparr>path = js ''a/n.md'', name = js ''n.md'', basename = js ''n'',
               extension = js ''md'', stat = \<lparr>ctime = 1, mtime = 2\<rparr>\<rparr>,
      isSelected = False, hasSelectedAbove = None, hasSelectedBelow = None, onClick = 0,
      dateGroup = Null, formattedDate = None, parentFolder = Value (js ''a'')\<rparr>
     \<lparr>file' = \<lparr>path = js ''a/n.md'', name = js ''n.md'', basename = js ''n'',
               extension = js ''md'', stat = \<lparr>ctime = 1, mtime = 2\<rparr>\<rparr>,
      isSelected = False, hasSelectedAbove = None, hasSelectedBelow = None, onClick = 0,
      dateGroup = Null, formattedDate = None, parentFolder = Value (js ''b'')\<rparr>"
  by (simp add: rerenders_def propsAreEqual_def js_def)

section \<open>Emoji classification\<close>

lemma emojiRegexTest_iff:
  "emojiRegexTest s =
     (\<exists>cp \<in> set (codePoints s).
        cp \<in> {0x1F600..0x1F64F} \<union> {0x1F300..0x1F5FF} \<union> {0x1F680..0x1F6FF}
           \<union> {0x1F1E0..0x1F1FF} \<union> {0x2600..0x26FF} \<union> {0x2700..0x27BF}
           \<union> {0x1F900..0x1F9FF} \<union> {0x1F018..0x1F270} \<union> {0x238C..0x2454}
           \<union> {0x20D0..0x20FF})"
  unfolding emojiRegexTest_def emojiRanges_def list_ex_iff by (rule bex_cong) auto

lemma isEmoji_one_unit:
  "isEmoji (JSString [u]) =
     ((0x2600 \<le> unat u \<and> unat u \<le> 0x27BF) \<or> (0x238C \<le> unat u \<and> unat u \<le> 0x2454)
      \<or> (0x20D0 \<le> unat u \<and> unat u \<le> 0x20FF))"
proof -
  have "unat u < 65536" using unsigned_less [of u, where ?'a = nat] by simp
  then show ?thesis
    by (auto simp: emojiRegexTest_def emojiRanges_def codePoints_def)
qed

text \<open>
  C7. The classifier is true for the artist palette emoji (U+1F3A8, the code units D83C
  DFA8), false for every ASCII letter (\<open>a\<close> among them), false for the empty string and
  for a value that is not a string; on a string it is decided by whether one of its code
  points lies in the ten fixed ranges.
\<close>

theorem isEmoji_classifies:
  "isEmoji (JSString [0xD83C, 0xDFA8])
   \<and> \<not> isEmoji (JSString (js ''a''))
   \<and> ((0x41 \<le> u \<and> u \<le> 0x5A) \<or> (0x61 \<le> u \<and> u \<le> 0x7A) \<longrightarrow> \<not> isEmoji (JSString [u]))
   \<and> \<not> isEmoji (JSString [])
   \<and> \<not> isEmoji JSNonString
   \<and> isEmoji (JSString s) =
       (\<exists>cp \<in> set (codePoints s).
          cp \<in> {0x1F600..0x1F64F} \<union> {0x1F300..0x1F5FF} \<union> {0x1F680..0x1F6FF}
             \<union> {0x1F1E0..0x1F1FF} \<union> {0x2600..0x26FF} \<union> {0x2700..0x27BF}
             \<union> {0x1F900..0x1F9FF} \<union> {0x1F018..0x1F270} \<union> {0x238C..0x2454}
             \<union> {0x20D0..0x20FF})"
proof -
  have palette: "isEmoji (JSString [0xD83C, 0xDFA8])"
    by (simp add: emojiRegexTest_def emojiRanges_def codePoints_def isHighSurrogate_def
        isLowSurrogate_def)
  have a: "\<not> isEmoji (JSString (js ''a''))"
    by (simp add: js_def emojiRegexTest_def emojiRanges_def codePoints_def)
  have letters: "(0x41 \<le> u \<and> u \<le> 0x5A) \<or> (0x61 \<le> u \<and> u \<le> 0x7A) \<longrightarrow> \<not> isEmoji (JSString [u])"
  proof
    assume "(0x41 \<le> u \<and> u \<le> 0x5A) \<or> (0x61 \<le> u \<and> u \<le> 0x7A)"
    then have "unat u \<le> 0x7A" by (auto simp: word_le_nat_alt)
    then show "\<not> isEmoji (JSString [u])" unfolding isEmoji_one_unit by simp
  qed
  have general: "isEmoji (JSString s) =
       (\<exists>cp \<in> set (codePoints s).
          cp \<in> {0x1F600..0x1F64F} \<union> {0x1F300..0x1F5FF} \<union> {0x1F680..0x1F6FF}
             \<union> {0x1F1E0..0x1F1FF} \<union> {0x2600..0x26FF} \<union> {0x2700..0x27BF}
             \<union> {0x1F900..0x1F9FF} \<union> {0x1F018..0x1F270} \<union> {0x238C..0x2454}
             \<union> {0x20D0..0x20FF})"
  proof (cases "s = []")
    case True
    then show ?thesis by (simp add: codePoints_def)
  next
    case False
    then show ?thesis using emojiRegexTest_iff [of s] by simp
  qed
  from palette a letters general show ?thesis by simp
qed

theorem isEmoji_classifies_witness:
  "\<not> isEmoji (JSString [0x7A]) \<and> isEmoji (JSString [0x2B, 0x2600])
   \<and> codePoints [0x2B, 0x2600] = [0x2B, 0x2600]"
proof -
  have cps: "codePoints [0x2B, 0x2600] = [0x2B, 0x2600]"
    by (simp add: codePoints_def isHighSurrogate_def)
  have z: "(0x61 :: 16 word) \<le> 0x7A \<and> (0x7A :: 16 word) \<le> 0x7A"
    by simp
  from isEmoji_classifies [of "0x7A" "[0x2B, 0x2600]"] z
  have "\<not> isEmoji (JSString [0x7A])"
    and "isEmoji (JSString [0x2B, 0x2600]) =
       (\<exists>cp \<in> set (codePoints [0x2B, 0x2600]).
          cp \<in> {0x1F600..0x1F64F} \<union> {0x1F300..0x1F5FF} \<union> {0x1F680..0x1F6FF}
             \<union> {0x1F1E0..0x1F1FF} \<union> {0x2600..0x26FF} \<union> {0x2700..0x27BF}
             \<union> {0x1F900..0x1F9FF} \<union> {0x1F018..0x1F270} \<union> {0x238C..0x2454}
             \<union> {0x20D0..0x20FF})"
    by blast+
  then show ?thesis unfolding cps by simp
qed

section \<open>Recently used lists of the modal\<close>

text \<open>
  C6. The constructor splits the recently used list in two: the emoji list holds exactly
  the entries classified as emoji, the icon list exactly the entries that are not emoji
  and belong to the icon catalog, both in the order of the list; no entry is in both;
  every entry goes to one of the two lists or, when it is neither an emoji nor in the
  catalog, is dropped; and the constructor has no failing branch.
\<close>

theorem newIconPickerModal_partition:
  "set (recentlyUsedEmojis (newIconPickerModal catalog p recent t))
     = {item \<in> set recent. isEmoji (JSString item)}
   \<and> set (recentlyUsedIcons (newIconPickerModal catalog p recent t))
     = {item \<in> set recent. \<not> isEmoji (JSString item) \<and> item \<in> set catalog}
   \<and> set (recentlyUsedEmojis (newIconPickerModal catalog p recent t))
       \<inter> set (recentlyUsedIcons (newIconPickerModal catalog p recent t)) = {}
   \<and> subseq (recentlyUsedEmojis (newIconPickerModal catalog p recent t)) recent
   \<and> subseq (recentlyUsedIcons (newIconPickerModal catalog p recent t)) recent
   \<and> mset recent =
       mset (recentlyUsedEmojis (newIconPickerModal catalog p recent t))
       + mset (recentlyUsedIcons (newIconPickerModal catalog p recent t))
       + mset (filter (\<lambda>item. \<not> isEmoji (JSString item) \<and> item \<notin> set catalog) recent)
   \<and> (\<forall>item \<in> set recent. \<not> isEmoji (JSString item) \<and> item \<notin> set catalog \<longrightarrow>
        item \<notin> set (recentlyUsedEmojis (newIconPickerModal catalog p recent t))
        \<and> item \<notin> set (recentlyUsedIcons (newIconPickerModal catalog p recent t)))
   \<and> allIcons (newIconPickerModal catalog p recent t) = catalog"
proof -
  have part: "mset recent =
       mset (filter (\<lambda>item. isEmoji (JSString item)) recent)
       + mset (filter (\<lambda>item. \<not> isEmoji (JSString item) \<and> item \<in> set catalog) recent)
       + mset (filter (\<lambda>item. \<not> isEmoji (JSString item) \<and> item \<notin> set catalog) recent)"
    by (induction recent) simp_all
  show ?thesis
    unfolding newIconPickerModal_def using part
    by (auto simp del: isEmoji.simps)
qed

theorem newIconPickerModal_partition_witness:
  "recentlyUsedEmojis
     (newIconPickerModal [js ''star'', js ''home''] (js ''notes'')
        [js ''home'', [0xD83C, 0xDFA8], js ''gone'', js ''star''] FOLDER)
     = [[0xD83C, 0xDFA8]]
   \<and> recentlyUsedIcons
     (newIconPickerModal [js ''star'', js ''home''] (js ''notes'')
        [js ''home'', [0xD83C, 0xDFA8], js ''gone'', js ''star''] FOLDER)
     = [js ''home'', js ''star'']
   \<and> js ''gone'' \<notin> set (recentlyUsedIcons
     (newIconPickerModal [js ''star'', js ''home''] (js ''notes'')
        [js ''home'', [0xD83C, 0xDFA8], js ''gone'', js ''star''] FOLDER))"
proof -
  have e: "isEmoji (JSString [0xD83C, 0xDFA8])"
    by (simp add: emojiRegexTest_def emojiRanges_def codePoints_def isHighSurrogate_def
        isLowSurrogate_def)
  have n: "\<not> isEmoji (JSString (js ''home''))" "\<not> isEmoji (JSString (js ''gone''))"
    "\<not> isEmoji (JSString (js ''star''))"
    by (simp_all add: js_def emojiRegexTest_def emojiRanges_def codePoints_def
        isHighSurrogate_def)
  have lists: "recentlyUsedEmojis
     (newIconPickerModal [js ''star'', js ''home''] (js ''notes'')
        [js ''home'', [0xD83C, 0xDFA8], js ''gone'', js ''star''] FOLDER)
     = [[0xD83C, 0xDFA8]]"
    "recentlyUsedIcons
     (newIconPickerModal [js ''star'', js ''home''] (js ''notes'')
        [js ''home'', [0xD83C, 0xDFA8], js ''gone'', js ''star''] FOLDER)
     = [js ''home'', js ''star'']"
    using e n by (simp_all add: newIconPickerModal_def del: isEmoji.simps) (simp_all add: js_def)
  have gone: "js ''gone'' \<in> set [js ''home'', [0xD83C, 0xDFA8], js ''gone'', js ''star'']"
    by simp
  from newIconPickerModal_partition
         [of "[js ''star'', js ''home'']" "js ''notes''"
             "[js ''home'', [0xD83C, 0xDFA8], js ''gone'', js ''star'']" FOLDER]
  have "\<forall>item \<in> set [js ''home'', [0xD83C, 0xDFA8], js ''gone'', js ''star''].
          \<not> isEmoji (JSString item) \<and> item \<notin> set [js ''star'', js ''home''] \<longrightarrow>
          item \<notin> set (recentlyUsedIcons
            (newIconPickerModal [js ''star'', js ''home''] (js ''notes'')
               [js ''home'', [0xD83C, 0xDFA8], js ''gone'', js ''star''] FOLDER))"
    by blast
  moreover have "js ''gone'' \<notin> set [js ''star'', js ''home'']"
    by (simp add: js_def)
  ultimately have "js ''gone'' \<notin> set (recentlyUsedIcons
     (newIconPickerModal [js ''star'', js ''home''] (js ''notes'')
        [js ''home'', [0xD83C, 0xDFA8], js ''gone'', js ''star''] FOLDER))"
    using gone n(2) by blast
  with lists show ?thesis by blast
qed

section \<open>Emoji text input\<close>

text \<open>
  C10. The input handler keeps the first code point of the text and nothing after it
  (the kept value is a prefix of the text, and reading it by code points gives the first
  element of the text read by code points). So in every run of the text field from its
  initial state, each emoji handed to the selection callback is exactly one code point
  and classifies as an emoji; and a submission calls the callback exactly when the kept
  value is non-empty and classifies as an emoji, with that value.
\<close>

theorem handleInputChange_first_code_point:
  "prefix (handleInputChange v) v
   \<and> stringIterator (handleInputChange v) = take 1 (stringIterator v)
   \<and> codePoints (handleInputChange v) = take 1 (codePoints v)
   \<and> length (codePoints (handleInputChange v)) \<le> 1
   \<and> (\<forall>e \<in> set (runEmojiInput [] events).
        length (codePoints e) = 1 \<and> isEmoji (JSString e))
   \<and> handleSubmit x = (if x \<noteq> [] \<and> isEmoji (JSString x) then Some x else None)"
proof -
  have run: "\<forall>e \<in> set (runEmojiInput [] events).
        length (codePoints e) = 1 \<and> isEmoji (JSString e)"
  proof
    fix e assume "e \<in> set (runEmojiInput [] events)"
    moreover have "length (codePoints []) \<le> 1" by (simp add: codePoints_def)
    ultimately show "length (codePoints e) = 1 \<and> isEmoji (JSString e)"
      by (rule runEmojiInput_invariant [rotated])
  qed
  have len: "length (codePoints (handleInputChange v)) \<le> 1"
    by (simp add: codePoints_handleInputChange)
  from run len show ?thesis
    by (simp add: prefix_handleInputChange stringIterator_handleInputChange
        codePoints_handleInputChange handleSubmit_def del: isEmoji.simps)
qed

text \<open>
  The flag of Sweden is two regional indicators (U+1F1F8 U+1F1EA, four code units):
  the field keeps the first one, and the submission hands that one to the callback.
\<close>

theorem handleInputChange_first_code_point_witness:
  "handleInputChange [0xD83C, 0xDDF8, 0xD83C, 0xDDEA] = [0xD83C, 0xDDF8]
   \<and> runEmojiInput [] [Change [0xD83C, 0xDDF8, 0xD83C, 0xDDEA], ClickSubmit, Change (js ''ab''),
        KeyPress (js ''Enter'')] = [[0xD83C, 0xDDF8]]
   \<and> length (codePoints [0xD83C, 0xDDF8]) = 1"
proof -
  have h: "handleInputChange [0xD83C, 0xDDF8, 0xD83C, 0xDDEA] = [0xD83C, 0xDDF8]"
    by (simp add: handleInputChange_take isHighSurrogate_def isLowSurrogate_def)
  have h2: "handleInputChange (js ''ab'') = js ''a''"
    by (simp add: handleInputChange_take js_def isHighSurrogate_def)
  have e: "isEmoji (JSString [0xD83C, 0xDDF8])"
    by (simp add: emojiRegexTest_def emojiRanges_def codePoints_def isHighSurrogate_def
        isLowSurrogate_def)
  have n: "\<not> isEmoji (JSString (js ''a''))"
    by (simp add: js_def emojiRegexTest_def emojiRanges_def codePoints_def)
  have run: "runEmojiInput [] [Change [0xD83C, 0xDDF8, 0xD83C, 0xDDEA], ClickSubmit,
        Change (js ''ab''), KeyPress (js ''Enter'')] = [[0xD83C, 0xDDF8]]"
    using e n by (simp add: h h2 handleSubmit_def handleKeyPress_def del: isEmoji.simps)
  from handleInputChange_first_code_point
         [of "[0xD83C, 0xDDF8, 0xD83C, 0xDDEA]"
             "[Change [0xD83C, 0xDDF8, 0xD83C, 0xDDEA], ClickSubmit, Change (js ''ab''),
               KeyPress (js ''Enter'')]" "[]"]
  have "\<forall>e \<in> set (runEmojiInput [] [Change [0xD83C, 0xDDF8, 0xD83C, 0xDDEA], ClickSubmit,
            Change (js ''ab''), KeyPress (js ''Enter'')]).
          length (codePoints e) = 1 \<and> isEmoji (JSString e)"
    by blast
  with run have "length (codePoints [0xD83C, 0xDDF8]) = 1" by simp
  with h run show ?thesis by blast
qed

section \<open>Selecting an icon\<close>

text \<open>
  C9 (as amended). A selection first calls the assignment of the metadata service,
  \<open>setTagIcon\<close> for a tag and \<open>setFolderIcon\<close> otherwise, with the item path and the
  selected identifier. The modal is closed by the selection exactly when the assignment
  is fulfilled, once, as the last event, and the fulfilment comes before the close.
  When the assignment is rejected or stays pending, the selection does not close the
  modal and does not call the callback.
\<close>

theorem selectIcon_close_after_fulfilment:
  "hd (selectIcon modal settlement icon) =
     (if itemType modal = TAG then SetTagIcon (itemPath modal) icon
      else SetFolderIcon (itemPath modal) icon)
   \<and> (Close \<in> set (selectIcon modal settlement icon)) = (settlement = Fulfilled)
   \<and> (OnChooseIcon icon \<in> set (selectIcon modal settlement icon))
       = (settlement = Fulfilled \<and> hasOnChooseIcon modal)
   \<and> (settlement = Fulfilled \<longrightarrow>
        last (selectIcon modal settlement icon) = Close
        \<and> count_list (selectIcon modal settlement icon) Close = 1
        \<and> AssignmentFulfilled \<in> set (beforeClose (selectIcon modal settlement icon))
        \<and> hd (selectIcon modal settlement icon) \<in> set (beforeClose (selectIcon modal settlement icon)))
   \<and> (settlement = Rejected \<longrightarrow>
        selectIcon modal settlement icon =
          [if itemType modal = TAG then SetTagIcon (itemPath modal) icon
           else SetFolderIcon (itemPath modal) icon, AssignmentRejected])
   \<and> (settlement = Pending \<longrightarrow>
        selectIcon modal settlement icon =
          [if itemType modal = TAG then SetTagIcon (itemPath modal) icon
           else SetFolderIcon (itemPath modal) icon])"
  by (cases settlement) (auto simp: selectIcon_def beforeClose_def)

theorem selectIcon_close_after_fulfilment_witness:
  "selectIcon ((newIconPickerModal [] (js ''work'') [] TAG)\<lparr>hasOnChooseIcon := True\<rparr>)
     Fulfilled (js ''star'')
     = [SetTagIcon (js ''work'') (js ''star''), AssignmentFulfilled, OnChooseIcon (js ''star''),
        Close]
   \<and> selectIcon (newIconPickerModal [] (js ''work'') [] FOLDER) Pending (js ''star'')
     = [SetFolderIcon (js ''work'') (js ''star'')]
   \<and> selectIcon (newIconPickerModal [] (js ''work'') [] TAG) Rejected (js ''star'')
     = [SetTagIcon (js ''work'') (js ''star''), AssignmentRejected]
   \<and> last (selectIcon (newIconPickerModal [] (js ''work'') [] FOLDER) Fulfilled (js ''star''))
     = Close"
  using selectIcon_close_after_fulfilment
          [of "newIconPickerModal [] (js ''work'') [] FOLDER" Fulfilled "js ''star''"]
    selectIcon_close_after_fulfilment
          [of "newIconPickerModal [] (js ''work'') [] FOLDER" Pending "js ''star''"]
    selectIcon_close_after_fulfilment
          [of "newIconPickerModal [] (js ''work'') [] TAG" Rejected "js ''star''"]
  by (simp add: selectIcon_def newIconPickerModal_def)

text \<open>
  C9 (as stated) fails when the assignment is rejected: the assignment has settled, and
  no close follows.
\<close>

theorem selectIcon_rejected_counterexample:
  "selectIcon (newIconPickerModal [] (js ''work'') [] FOLDER) Rejected (js ''star'')
     = [SetFolderIcon (js ''work'') (js ''star''), AssignmentRejected]
   \<and> Close \<notin> set (selectIcon (newIconPickerModal [] (js ''work'') [] FOLDER) Rejected (js ''star''))"
  by (simp add: selectIcon_def newIconPickerModal_def)

section \<open>Sorting with a comparator\<close>

lemma mset_insertSorted: "mset (insertSorted c x ys) = add_mset x (mset ys)"
  by (induction ys) simp_all

lemma mset_arraySort: "mset (arraySort c xs) = mset xs"
  by (induction xs) (simp_all add: arraySort_def mset_insertSorted)

lemma set_insertSorted: "set (insertSorted c x ys) = insert x (set ys)"
  by (induction ys) auto

lemma arraySort_Cons: "arraySort c (x # xs) = insertSorted c x (arraySort c xs)"
  by (simp add: arraySort_def)

lemma consistent_refl: "consistentComparator c \<Longrightarrow> c a a = 0"
proof -
  assume "consistentComparator c"
  then have "sgn (c a a) = - sgn (c a a)" unfolding consistentComparator_def by blast
  then show ?thesis by (simp add: sgn_if split: if_splits)
qed

lemma consistent_flip_sign:
  assumes "consistentComparator c"
  shows "(c a b < 0) = (c b a > 0)" and "(c a b = 0) = (c b a = 0)"
    and "(c a b \<le> 0) = (c b a \<ge> 0)"
proof -
  from assms have s: "sgn (c a b) = - sgn (c b a)"
    unfolding consistentComparator_def by blast
  show "(c a b < 0) = (c b a > 0)" using s by (auto simp: sgn_if split: if_splits)
  show "(c a b = 0) = (c b a = 0)" using s by (auto simp: sgn_if split: if_splits)
  show "(c a b \<le> 0) = (c b a \<ge> 0)" using s by (auto simp: sgn_if split: if_splits)
qed

lemma consistent_trans:
  "consistentComparator c \<Longrightarrow> c a b \<le> 0 \<Longrightarrow> c b d \<le> 0 \<Longrightarrow> c a d \<le> 0"
  unfolding consistentComparator_def by blast

lemma consistent_flip:
  assumes "consistentComparator c"
  shows "consistentComparator (\<lambda>a b. c b a)"
  unfolding consistentComparator_def
proof (intro conjI allI impI)
  fix a b
  from assms show "sgn (c b a) = - sgn (c a b)"
    unfolding consistentComparator_def by blast
next
  fix a b d
  assume "c b a \<le> 0 \<and> c d b \<le> 0"
  then show "c d a \<le> 0" using consistent_trans [OF assms, of d b a] by simp
qed

lemma sorted_insertSorted:
  assumes c: "consistentComparator c"
  shows "sorted_wrt (\<lambda>a b. c a b \<le> 0) ys \<Longrightarrow> sorted_wrt (\<lambda>a b. c a b \<le> 0) (insertSorted c x ys)"
proof (induction ys)
  case Nil
  then show ?case by simp
next
  case (Cons y ys)
  show ?case
  proof (cases "c x y \<le> 0")
    case True
    have "\<forall>z \<in> set ys. c x z \<le> 0"
    proof
      fix z assume "z \<in> set ys"
      with Cons.prems have "c y z \<le> 0" by simp
      with True show "c x z \<le> 0" by (rule consistent_trans [OF c])
    qed
    with True Cons.prems show ?thesis by simp
  next
    case False
    then have "c y x \<le> 0" using consistent_flip_sign(1) [OF c, of y x] by simp
    with False Cons show ?thesis by (simp add: set_insertSorted)
  qed
qed

lemma sorted_arraySort:
  "consistentComparator c \<Longrightarrow> sorted_wrt (\<lambda>a b. c a b \<le> 0) (arraySort c xs)"
  by (induction xs) (simp_all add: arraySort_def sorted_insertSorted)

text \<open>Stability: the elements a predicate picks keep their order when they all tie.\<close>

lemma filter_insertSorted:
  assumes "\<And>y. P x \<Longrightarrow> P y \<Longrightarrow> c x y \<le> 0"
  shows "filter P (insertSorted c x ys) = (if P x then x # filter P ys else filter P ys)"
  using assms by (induction ys) auto

lemma arraySort_stable:
  assumes c: "consistentComparator c"
  shows "filter (\<lambda>y. c k y = 0) (arraySort c xs) = filter (\<lambda>y. c k y = 0) xs"
proof (induction xs)
  case Nil
  then show ?case by (simp add: arraySort_def)
next
  case (Cons x xs)
  have tie: "\<And>y. c k x = 0 \<Longrightarrow> c k y = 0 \<Longrightarrow> c x y \<le> 0"
  proof -
    fix y assume "c k x = 0" "c k y = 0"
    then have "c x k \<le> 0" "c k y \<le> 0"
      using consistent_flip_sign(2) [OF c, of k x] by simp_all
    then show "c x y \<le> 0" by (rule consistent_trans [OF c])
  qed
  show ?case
    unfolding arraySort_Cons
    by (subst filter_insertSorted) (use tie Cons.IH in auto)
qed

lemma arraySort_stable_pred:
  assumes "consistentComparator c" and "\<And>y. P y = (c k y = 0)"
  shows "filter P (arraySort c xs) = filter P xs"
proof -
  from assms(2) have "P = (\<lambda>y. c k y = 0)" by auto
  with arraySort_stable [OF assms(1), of k xs] show ?thesis by simp
qed

text \<open>A list sorted by an asymmetric relation is fixed by its elements.\<close>

lemma strict_sorted_unique:
  assumes asym: "\<And>a b. R a b \<Longrightarrow> \<not> R b a"
  shows "sorted_wrt R xs \<Longrightarrow> sorted_wrt R ys \<Longrightarrow> set xs = set ys \<Longrightarrow> xs = ys"
proof (induction xs arbitrary: ys)
  case Nil
  then show ?case by simp
next
  case (Cons x xs)
  from Cons.prems(3) obtain y ys' where ys: "ys = y # ys'" by (cases ys) auto
  have irrefl: "\<And>a. \<not> R a a" using asym by blast
  have xy: "x = y"
  proof (rule ccontr)
    assume ne: "x \<noteq> y"
    from Cons.prems(3) ys ne have "x \<in> set ys'" "y \<in> set xs" by auto
    with Cons.prems(1,2) ys have "R y x" "R x y" by auto
    with asym show False by blast
  qed
  from Cons.prems(1) irrefl have "x \<notin> set xs" by auto
  moreover from Cons.prems(2) ys irrefl have "y \<notin> set ys'" by auto
  ultimately have "set xs = set ys'" using Cons.prems(3) ys xy by auto
  with Cons.IH [of ys'] Cons.prems(1,2) ys have "xs = ys'" by simp
  with xy ys show ?case by simp
qed

lemma noTies_iff:
  assumes sym: "\<And>a b. tie a b = tie b a" and refl: "\<And>a. tie a a"
  shows "noTies tie xs = (distinct xs \<and> (\<forall>x \<in> set xs. \<forall>y \<in> set xs. x \<noteq> y \<longrightarrow> \<not> tie x y))"
proof (induction xs)
  case Nil
  then show ?case by simp
next
  case (Cons x xs)
  show ?case
    unfolding noTies.simps Cons.IH list_all_iff
    using sym refl by auto
qed

lemma sorted_wrt_strengthen:
  assumes "distinct zs" and "sorted_wrt P zs"
    and "\<And>x y. x \<in> set zs \<Longrightarrow> y \<in> set zs \<Longrightarrow> x \<noteq> y \<Longrightarrow> P x y \<Longrightarrow> Q x y"
  shows "sorted_wrt Q zs"
  using assms by (induction zs) auto

lemma arraySort_reverse:
  assumes c: "consistentComparator c" and nt: "noTies (\<lambda>a b. c a b = 0) xs"
  shows "arraySort (\<lambda>a b. c b a) xs = rev (arraySort c xs)"
proof -
  let ?A = "arraySort c xs" and ?B = "arraySort (\<lambda>a b. c b a) xs"
  have c': "consistentComparator (\<lambda>a b. c b a)" by (rule consistent_flip [OF c])
  from nt have dx: "distinct xs"
    and ntx: "\<forall>x \<in> set xs. \<forall>y \<in> set xs. x \<noteq> y \<longrightarrow> c x y \<noteq> 0"
    using noTies_iff [of "\<lambda>a b. c a b = 0" xs]
      consistent_flip_sign(2) [OF c] consistent_refl [OF c] by auto
  have mA: "mset ?A = mset xs" and mB: "mset ?B = mset xs"
    by (rule mset_arraySort)+
  then have sA: "set ?A = set xs" and sB: "set ?B = set xs"
    by (metis set_mset_mset)+
  have dA: "distinct ?A" and dB: "distinct ?B"
    using mA mB dx by (metis mset_eq_imp_distinct_iff)+
  have "sorted_wrt (\<lambda>a b. c a b < 0) ?A"
  proof (rule sorted_wrt_strengthen [OF dA sorted_arraySort [OF c]])
    fix x y assume "x \<in> set ?A" "y \<in> set ?A" "x \<noteq> y" "c x y \<le> 0"
    with ntx sA have "c x y \<noteq> 0" by simp
    with \<open>c x y \<le> 0\<close> show "c x y < 0" by simp
  qed
  moreover have "sorted_wrt (\<lambda>a b. c b a < 0) ?B"
  proof (rule sorted_wrt_strengthen [OF dB sorted_arraySort [OF c']])
    fix x y assume "x \<in> set ?B" "y \<in> set ?B" "x \<noteq> y" "c y x \<le> 0"
    with ntx sB have "c y x \<noteq> 0" by simp
    with \<open>c y x \<le> 0\<close> show "c y x < 0" by simp
  qed
  then have "sorted_wrt (\<lambda>a b. c a b < 0) (rev ?B)" by (simp add: sorted_wrt_rev)
  moreover have "set ?A = set (rev ?B)" using sA sB by simp
  moreover have "\<And>a b. c a b < 0 \<Longrightarrow> \<not> c b a < 0"
    using consistent_flip_sign(1) [OF c] by force
  ultimately have "?A = rev ?B" by (rule strict_sorted_unique [rotated])
  then show ?thesis by simp
qed

lemma arraySort_reverse_pred:
  assumes "consistentComparator c" and "\<And>a b. tie a b = (c a b = 0)" and "noTies tie xs"
  shows "arraySort (\<lambda>a b. c b a) xs = rev (arraySort c xs)"
proof -
  from assms(2) have "tie = (\<lambda>a b. c a b = 0)" by auto
  with arraySort_reverse [OF assms(1), of xs] assms(3) show ?thesis by simp
qed

section \<open>The six sort options\<close>

lemma consistent_difference: "consistentComparator (\<lambda>a b. (key a :: int) - key b)"
  unfolding consistentComparator_def by (auto simp: sgn_if)

lemma consistent_basename:
  "consistentComparator localeCompare
   \<Longrightarrow> consistentComparator (\<lambda>a b. localeCompare (basename a) (basename b))"
  unfolding consistentComparator_def by blast

text \<open>The comparator of an option, as \<open>sortFiles\<close> passes it to \<open>sort\<close>.\<close>

lemma sortFiles_arraySort:
  "sortFiles ts lc files opt =
     arraySort (case opt of
        ModifiedDesc \<Rightarrow> (\<lambda>a b. ts b Modified - ts a Modified)
      | ModifiedAsc \<Rightarrow> (\<lambda>a b. ts a Modified - ts b Modified)
      | CreatedDesc \<Rightarrow> (\<lambda>a b. ts b Created - ts a Created)
      | CreatedAsc \<Rightarrow> (\<lambda>a b. ts a Created - ts b Created)
      | TitleAsc \<Rightarrow> (\<lambda>a b. lc (basename a) (basename b))
      | TitleDesc \<Rightarrow> (\<lambda>a b. lc (basename b) (basename a))) files"
  by (cases opt) (simp_all add: sortFiles_def Let_def)

lemma sortFiles_facts:
  assumes lc: "consistentComparator lc"
  shows "mset (sortFiles ts lc files opt) = mset files"
    and "sorted_wrt (declaredOrder ts lc opt) (sortFiles ts lc files opt)"
    and "filter (tied ts lc opt k) (sortFiles ts lc files opt) = filter (tied ts lc opt k) files"
    and "noTies (tied ts lc opt) files \<Longrightarrow>
         sortFiles ts lc files (oppositeDirection opt) = rev (sortFiles ts lc files opt)"
proof -
  note bn = consistent_basename [OF lc]
  show "mset (sortFiles ts lc files opt) = mset files"
    by (simp add: sortFiles_arraySort mset_arraySort)
  show "sorted_wrt (declaredOrder ts lc opt) (sortFiles ts lc files opt)"
  proof (cases opt)
    case ModifiedDesc
    with sorted_arraySort [OF consistent_difference [of "\<lambda>f. - ts f Modified"], of files]
    show ?thesis by (simp add: sortFiles_arraySort declaredOrder_def [abs_def])
  next
    case ModifiedAsc
    with sorted_arraySort [OF consistent_difference [of "\<lambda>f. ts f Modified"], of files]
    show ?thesis by (simp add: sortFiles_arraySort declaredOrder_def [abs_def])
  next
    case CreatedDesc
    with sorted_arraySort [OF consistent_difference [of "\<lambda>f. - ts f Created"], of files]
    show ?thesis by (simp add: sortFiles_arraySort declaredOrder_def [abs_def])
  next
    case CreatedAsc
    with sorted_arraySort [OF consistent_difference [of "\<lambda>f. ts f Created"], of files]
    show ?thesis by (simp add: sortFiles_arraySort declaredOrder_def [abs_def])
  next
    case TitleAsc
    with sorted_arraySort [OF bn, of files]
    show ?thesis by (simp add: sortFiles_arraySort declaredOrder_def [abs_def])
  next
    case TitleDesc
    with sorted_arraySort [OF consistent_flip [OF bn], of files]
    show ?thesis
      by (simp add: sortFiles_arraySort declaredOrder_def [abs_def] consistent_flip_sign(3) [OF bn])
  qed
  show "filter (tied ts lc opt k) (sortFiles ts lc files opt) = filter (tied ts lc opt k) files"
  proof (cases opt)
    case ModifiedDesc
    show ?thesis unfolding ModifiedDesc sortFiles_arraySort SortOption.case
      by (rule arraySort_stable_pred [OF consistent_flip [OF consistent_difference], of _ _ k])
        (auto simp: tied_def)
  next
    case ModifiedAsc
    show ?thesis unfolding ModifiedAsc sortFiles_arraySort SortOption.case
      by (rule arraySort_stable_pred [OF consistent_difference, of _ _ k])
        (auto simp: tied_def)
  next
    case CreatedDesc
    show ?thesis unfolding CreatedDesc sortFiles_arraySort SortOption.case
      by (rule arraySort_stable_pred [OF consistent_flip [OF consistent_difference], of _ _ k])
        (auto simp: tied_def)
  next
    case CreatedAsc
    show ?thesis unfolding CreatedAsc sortFiles_arraySort SortOption.case
      by (rule arraySort_stable_pred [OF consistent_difference, of _ _ k])
        (auto simp: tied_def)
  next
    case TitleAsc
    show ?thesis unfolding TitleAsc sortFiles_arraySort SortOption.case
      by (rule arraySort_stable_pred [OF bn, of _ k]) (auto simp: tied_def)
  next
    case TitleDesc
    show ?thesis unfolding TitleDesc sortFiles_arraySort SortOption.case
    proof (rule arraySort_stable_pred [OF consistent_flip [OF bn], of _ k])
      fix y
      show "tied ts lc TitleDesc k y = (lc (basename y) (basename k) = 0)"
        unfolding tied_def SortOption.case by (rule consistent_flip_sign(2) [OF lc])
    qed
  qed
  show "sortFiles ts lc files (oppositeDirection opt) = rev (sortFiles ts lc files opt)"
    if nt: "noTies (tied ts lc opt) files"
  proof (cases opt)
    case ModifiedDesc
    show ?thesis
      unfolding ModifiedDesc sortFiles_arraySort SortOption.case oppositeDirection.simps
      by (rule arraySort_reverse_pred
            [OF consistent_flip [OF consistent_difference] _ nt [unfolded ModifiedDesc]])
        (auto simp: tied_def)
  next
    case ModifiedAsc
    show ?thesis
      unfolding ModifiedAsc sortFiles_arraySort SortOption.case oppositeDirection.simps
      by (rule arraySort_reverse_pred [OF consistent_difference _ nt [unfolded ModifiedAsc]])
        (auto simp: tied_def)
  next
    case CreatedDesc
    show ?thesis
      unfolding CreatedDesc sortFiles_arraySort SortOption.case oppositeDirection.simps
      by (rule arraySort_reverse_pred
            [OF consistent_flip [OF consistent_difference] _ nt [unfolded CreatedDesc]])
        (auto simp: tied_def)
  next
    case CreatedAsc
    show ?thesis
      unfolding CreatedAsc sortFiles_arraySort SortOption.case oppositeDirection.simps
      by (rule arraySort_reverse_pred [OF consistent_difference _ nt [unfolded CreatedAsc]])
        (auto simp: tied_def)
  next
    case TitleAsc
    show ?thesis
      unfolding TitleAsc sortFiles_arraySort SortOption.case oppositeDirection.simps
      by (rule arraySort_reverse_pred [OF bn _ nt [unfolded TitleAsc]])
        (auto simp: tied_def)
  next
    case TitleDesc
    show ?thesis
      unfolding TitleDesc sortFiles_arraySort SortOption.case oppositeDirection.simps
    proof (rule arraySort_reverse_pred [OF consistent_flip [OF bn] _ nt [unfolded TitleDesc]])
      fix a b
      show "tied ts lc TitleDesc a b = (lc (basename b) (basename a) = 0)"
        unfolding tied_def SortOption.case by (rule consistent_flip_sign(2) [OF lc])
    qed
  qed
qed

text \<open>
  C2 (as amended). For a consistent \<open>localeCompare\<close>, each of the six options gives a
  permutation of the file list that is ordered by its field in its direction, and files
  that tie on the field keep the order they had in the input. Sorting in the opposite
  direction gives exactly the reversed output when no two files of the list tie on the
  field (equal timestamps, or names that compare equal).
\<close>

theorem sortFiles_ordered_and_reversed:
  assumes "consistentComparator localeCompare"
  shows "mset (sortFiles getFileTimestamp localeCompare files sortOption) = mset files
    \<and> sorted_wrt (declaredOrder getFileTimestamp localeCompare sortOption)
         (sortFiles getFileTimestamp localeCompare files sortOption)
    \<and> filter (tied getFileTimestamp localeCompare sortOption k)
         (sortFiles getFileTimestamp localeCompare files sortOption)
       = filter (tied getFileTimestamp localeCompare sortOption k) files
    \<and> (noTies (tied getFileTimestamp localeCompare sortOption) files \<longrightarrow>
         sortFiles getFileTimestamp localeCompare files (oppositeDirection sortOption)
         = rev (sortFiles getFileTimestamp localeCompare files sortOption))"
  using sortFiles_facts [OF assms] by blast

text \<open>
  The example of the specification: modification times 3, 1, 2. Ascending gives the
  order 1, 2, 3 and descending the reverse. The names are compared by length here.
\<close>

theorem sortFiles_ordered_and_reversed_witness:
  "sortFiles statTimestamp (\<lambda>a b. int (length a) - int (length b))
     [\<lparr>path = js ''c.md'', name = js ''c.md'', basename = js ''c'', extension = js ''md'',
        stat = \<lparr>ctime = 0, mtime = 3\<rparr>\<rparr>,
      \<lparr>path = js ''a.md'', name = js ''a.md'', basename = js ''a'', extension = js ''md'',
        stat = \<lparr>ctime = 0, mtime = 1\<rparr>\<rparr>,
      \<lparr>path = js ''b.md'', name = js ''b.md'', basename = js ''b'', extension = js ''md'',
        stat = \<lparr>ctime = 0, mtime = 2\<rparr>\<rparr>] ModifiedAsc
   = [\<lparr>path = js ''a.md'', name = js ''a.md'', basename = js ''a'', extension = js ''md'',
        stat = \<lparr>ctime = 0, mtime = 1\<rparr>\<rparr>,
      \<lparr>path = js ''b.md'', name = js ''b.md'', basename = js ''b'', extension = js ''md'',
        stat = \<lparr>ctime = 0, mtime = 2\<rparr>\<rparr>,
      \<lparr>path = js ''c.md'', name = js ''c.md'', basename = js ''c'', extension = js ''md'',
        stat = \<lparr>ctime = 0, mtime = 3\<rparr>\<rparr>]
   \<and> sortFiles statTimestamp (\<lambda>a b. int (length a) - int (length b))
     [\<lparr>path = js ''c.md'', name = js ''c.md'', basename = js ''c'', extension = js ''md'',
        stat = \<lparr>ctime = 0, mtime = 3\<rparr>\<rparr>,
      \<lparr>path = js ''a.md'', name = js ''a.md'', basename = js ''a'', extension = js ''md'',
        stat = \<lparr>ctime = 0, mtime = 1\<rparr>\<rparr>,
      \<lparr>path = js ''b.md'', name = js ''b.md'', basename = js ''b'', extension = js ''md'',
        stat = \<lparr>ctime = 0, mtime = 2\<rparr>\<rparr>] ModifiedDesc
   = [\<lparr>path = js ''c.md'', name = js ''c.md'', basename = js ''c'', extension = js ''md'',
        stat = \<lparr>ctime = 0, mtime = 3\<rparr>\<rparr>,
      \<lparr>path = js ''b.md'', name = js ''b.md'', basename = js ''b'', extension = js ''md'',
        stat = \<lparr>ctime = 0, mtime = 2\<rparr>\<rparr>,
      \<lparr>path = js ''a.md'', name = js ''a.md'', basename = js ''a'', extension = js ''md'',
        stat = \<lparr>ctime = 0, mtime = 1\<rparr>\<rparr>]"
proof -
  let ?lc = "\<lambda>a b :: jsstring. int (length a) - int (length b)"
  let ?c = "\<lparr>path = js ''c.md'', name = js ''c.md'', basename = js ''c'', extension = js ''md'',
        stat = \<lparr>ctime = 0, mtime = 3\<rparr>\<rparr>"
  let ?a = "\<lparr>path = js ''a.md'', name = js ''a.md'', basename = js ''a'', extension = js ''md'',
        stat = \<lparr>ctime = 0, mtime = 1\<rparr>\<rparr>"
  let ?b = "\<lparr>path = js ''b.md'', name = js ''b.md'', basename = js ''b'', extension = js ''md'',
        stat = \<lparr>ctime = 0, mtime = 2\<rparr>\<rparr>"
  have lc: "consistentComparator ?lc"
    unfolding consistentComparator_def by (auto simp: sgn_if)
  have nt: "noTies (tied statTimestamp ?lc ModifiedAsc) [?c, ?a, ?b]"
    by (simp add: tied_def statTimestamp_def)
  have asc: "sortFiles statTimestamp ?lc [?c, ?a, ?b] ModifiedAsc = [?a, ?b, ?c]"
    by (simp add: sortFiles_def arraySort_def statTimestamp_def)
  from sortFiles_ordered_and_reversed [OF lc, of statTimestamp "[?c, ?a, ?b]" ModifiedAsc ?a] nt
  have "sortFiles statTimestamp ?lc [?c, ?a, ?b] ModifiedDesc
        = rev (sortFiles statTimestamp ?lc [?c, ?a, ?b] ModifiedAsc)"
    by simp
  with asc show ?thesis by simp
qed

text \<open>
  C2 (as stated) fails on a tie: two files with the same modification time come out in
  their input order under both directions, so the two outputs are equal and not the
  reverse of each other.
\<close>

theorem sortFiles_tie_counterexample:
  "sortFiles statTimestamp (\<lambda>a b. int (length a) - int (length b))
     [\<lparr>path = js ''a.md'', name = js ''a.md'', basename = js ''a'', extension = js ''md'',
        stat = \<lparr>ctime = 0, mtime = 1\<rparr>\<rparr>,
      \<lparr>path = js ''b.md'', name = js ''b.md'', basename = js ''b'', extension = js ''md'',
        stat = \<lparr>ctime = 0, mtime = 1\<rparr>\<rparr>] ModifiedAsc
   = [\<lparr>path = js ''a.md'', name = js ''a.md'', basename = js ''a'', extension = js ''md'',
        stat = \<lparr>ctime = 0, mtime = 1\<rparr>\<rparr>,
      \<lparr>path = js ''b.md'', name = js ''b.md'', basename = js ''b'', extension = js ''md'',
        stat = \<lparr>ctime = 0, mtime = 1\<rparr>\<rparr>]
   \<and> sortFiles statTimestamp (\<lambda>a b. int (length a) - int (length b))
     [\<lparr>path = js ''a.md'', name = js ''a.md'', basename = js ''a'', extension = js ''md'',
        stat = \<lparr>ctime = 0, mtime = 1\<rparr>\<rparr>,
      \<lparr>path = js ''b.md'', name = js ''b.md'', basename = js ''b'', extension = js ''md'',
        stat = \<lparr>ctime = 0, mtime = 1\<rparr>\<rparr>] ModifiedDesc
   = [\<lparr>path = js ''a.md'', name = js ''a.md'', basename = js ''a'', extension = js ''md'',
        stat = \<lparr>ctime = 0, mtime = 1\<rparr>\<rparr>,
      \<lparr>path = js ''b.md'', name = js ''b.md'', basename = js ''b'', extension = js ''md'',
        stat = \<lparr>ctime = 0, mtime = 1\<rparr>\<rparr>]
   \<and> sortFiles statTimestamp (\<lambda>a b. int (length a) - int (length b))
     [\<lparr>path = js ''a.md'', name = js ''a.md'', basename = js ''a'', extension = js ''md'',
        stat = \<lparr>ctime = 0, mtime = 1\<rparr>\<rparr>,
      \<lparr>path = js ''b.md'', name = js ''b.md'', basename = js ''b'', extension = js ''md'',
        stat = \<lparr>ctime = 0, mtime = 1\<rparr>\<rparr>] ModifiedAsc
   \<noteq> rev (sortFiles statTimestamp (\<lambda>a b. int (length a) - int (length b))
     [\<lparr>path = js ''a.md'', name = js ''a.md'', basename = js ''a'', extension = js ''md'',
        stat = \<lparr>ctime = 0, mtime = 1\<rparr>\<rparr>,
      \<lparr>path = js ''b.md'', name = js ''b.md'', basename = js ''b'', extension = js ''md'',
        stat = \<lparr>ctime = 0, mtime = 1\<rparr>\<rparr>] ModifiedDesc)"
  by (simp add: sortFiles_def arraySort_def statTimestamp_def js_def)

section \<open>Feature image\<close>

lemma slice_2_minus_2: "slice' 2 (- 2) s = take (length s - 4) (drop 2 s)"
proof (cases "2 \<le> length s")
  case True
  then have "nat (int (length s) - 2 - 2) = length s - 4" by linarith
  with True show ?thesis by (simp add: slice'_def Let_def min_def max_def)
next
  case False
  then show ?thesis by (simp add: slice'_def Let_def min_def max_def)
qed

lemma firstPresent_Nil [simp]: "firstPresent candidate [] = None"
  by (simp add: firstPresent_def)

lemma firstPresent_Cons [simp]:
  "firstPresent candidate (x # xs) =
     (case candidate x of Some u \<Rightarrow> Some u | None \<Rightarrow> firstPresent candidate xs)"
  by (cases "candidate x") (simp_all add: firstPresent_def)

lemma frontmatterValue_None:
  "frontmatterValue metadata property = None \<Longrightarrow> frontmatterField metadata property = None"
  by (auto simp: frontmatterValue_def frontmatterField_def getProperty_def
      split: option.splits if_splits)

lemma frontmatterValue_Stored:
  "frontmatterValue metadata property = Some (Stored v)
   \<Longrightarrow> frontmatterField metadata property = Some v"
  by (auto simp: frontmatterValue_def frontmatterField_def getProperty_def
      split: option.splits if_splits)

lemma frontmatterImage_priority:
  "list_all (stringOrFalsy metadata) properties \<Longrightarrow>
   frontmatterImage app metadata thisFile properties
     = Inr (firstPresent (propertyCandidate app metadata thisFile) properties)"
proof (induction properties)
  case Nil
  then show ?case by simp
next
  case (Cons property rest)
  then have rest: "frontmatterImage app metadata thisFile rest
     = Inr (firstPresent (propertyCandidate app metadata thisFile) rest)"
    and ok: "stringOrFalsy metadata property"
    by simp_all
  show ?case
  proof (cases "frontmatterValue metadata property")
    case None
    then have "propertyCandidate app metadata thisFile property = None"
      by (simp add: propertyCandidate_def frontmatterValue_None)
    with None rest show ?thesis by simp
  next
    case (Some read)
    show ?thesis
    proof (cases read)
      case (InheritedMember member)
      with Some ok show ?thesis by (simp add: stringOrFalsy_def)
    next
      case (Stored v)
      with Some have field: "frontmatterField metadata property = Some v"
        by (simp add: frontmatterValue_Stored)
      show ?thesis
      proof (cases v)
        case (FmString s)
        with field have "propertyCandidate app metadata thisFile property =
            (if s = [] then None
             else (case getFirstLinkpathDest app (unwrapWikilink s) (path thisFile) of
                     None \<Rightarrow> None
                   | Some imageFile \<Rightarrow> getResourcePath app imageFile))"
          by (simp add: propertyCandidate_def)
        with Some Stored FmString rest show ?thesis
          by (simp add: unwrapWikilink_def slice_2_minus_2 Let_def split: option.splits)
      next
        case (FmNumber n)
        with field have "propertyCandidate app metadata thisFile property = None"
          by (simp add: propertyCandidate_def)
        with Some Stored FmNumber rest ok show ?thesis by (simp add: stringOrFalsy_def)
      next
        case (FmBoolean b)
        with field have "propertyCandidate app metadata thisFile property = None"
          by (simp add: propertyCandidate_def)
        with Some Stored FmBoolean rest ok show ?thesis by (simp add: stringOrFalsy_def)
      next
        case FmNull
        with field have "propertyCandidate app metadata thisFile property = None"
          by (simp add: propertyCandidate_def)
        with Some Stored FmNull rest ok show ?thesis by (simp add: stringOrFalsy_def)
      next
        case (FmList xs)
        with Some Stored ok show ?thesis by (simp add: stringOrFalsy_def)
      qed
    qed
  qed
qed

lemma embeddedImage_priority:
  "embeddedImage isImageFile app thisFile es
     = firstPresent (embedCandidate isImageFile app thisFile) es"
proof (induction es)
  case Nil
  then show ?case by simp
next
  case (Cons e es)
  have "embedCandidate isImageFile app thisFile e =
     (case getFirstLinkpathDest app (link e) (path thisFile) of
        None \<Rightarrow> None
      | Some embedFile \<Rightarrow> if isImageFile embedFile then getResourcePath app embedFile else None)"
    by (simp add: embedCandidate_def)
  with Cons show ?case by (simp add: Let_def split: option.splits)
qed

text \<open>
  When the read of every configured frontmatter property gives nothing, a stored string
  or a stored falsy value, the computed URL is the one the priority of the specification
  gives, and a failure of the resource path of a candidate only makes that candidate
  absent.
\<close>

lemma featureImageUrl_follows_priority:
  assumes "showFeatureImage settings"
    and "list_all (stringOrFalsy metadata) (featureImageProperties settings)"
  shows "featureImageUrl isImageFile app settings metadata thisFile
           = Inr (featureImagePriority isImageFile app settings metadata thisFile)"
  using assms
  by (simp add: featureImageUrl_def featureImagePriority_def frontmatterImage_priority
      embeddedImage_priority split: option.splits)

text \<open>
  C3. The claim holds of the code except where a configured frontmatter property holds
  a truthy value that is not a string. Here the note has \<open>cover: 42\<close> and embeds
  \<open>img.png\<close>: the priority gives the resource path of the embedded image, and the
  computation throws a \<open>TypeError\<close> instead.
\<close>

theorem featureImageUrl_nonstring_frontmatter_throws:
  "featureImageUrl (\<lambda>f. extension f = js ''png'')
     \<lparr>getFirstLinkpathDest =
        (\<lambda>linkpath sourcePath.
           if linkpath = js ''img.png''
           then Some \<lparr>path = js ''img.png'', name = js ''img.png'', basename = js ''img'',
                      extension = js ''png'', stat = \<lparr>ctime = 0, mtime = 0\<rparr>\<rparr>
           else None),
      getResourcePath = (\<lambda>f. Some (js ''app://'' @ path f))\<rparr>
     \<lparr>defaultFolderSort = ModifiedDesc, folderSortOverrides = None, tagSortOverrides = None,
      showFeatureImage = True, featureImageProperties = [js ''cover'']\<rparr>
     (Some \<lparr>frontmatter = Some [js ''cover'' \<mapsto> FmNumber 42],
            embeds = Some [\<lparr>link = js ''img.png''\<rparr>]\<rparr>)
     \<lparr>path = js ''note.md'', name = js ''note.md'', basename = js ''note'',
      extension = js ''md'', stat = \<lparr>ctime = 0, mtime = 0\<rparr>\<rparr>
   = Inl TypeError
   \<and> featureImagePriority (\<lambda>f. extension f = js ''png'')
     \<lparr>getFirstLinkpathDest =
        (\<lambda>linkpath sourcePath.
           if linkpath = js ''img.png''
           then Some \<lparr>path = js ''img.png'', name = js ''img.png'', basename = js ''img'',
                      extension = js ''png'', stat = \<lparr>ctime = 0, mtime = 0\<rparr>\<rparr>
           else None),
      getResourcePath = (\<lambda>f. Some (js ''app://'' @ path f))\<rparr>
     \<lparr>defaultFolderSort = ModifiedDesc, folderSortOverrides = None, tagSortOverrides = None,
      showFeatureImage = True, featureImageProperties = [js ''cover'']\<rparr>
     (Some \<lparr>frontmatter = Some [js ''cover'' \<mapsto> FmNumber 42],
            embeds = Some [\<lparr>link = js ''img.png''\<rparr>]\<rparr>)
     \<lparr>path = js ''note.md'', name = js ''note.md'', basename = js ''note'',
      extension = js ''md'', stat = \<lparr>ctime = 0, mtime = 0\<rparr>\<rparr>
   = Some (js ''app://img.png'')"
  by (simp add: featureImageUrl_def featureImagePriority_def frontmatterValue_def
      frontmatterField_def getProperty_def propertyCandidate_def embedCandidate_def js_def)

section \<open>Icon search\<close>

lemma replaceFirst_at:
  "h \<notin> set pre \<Longrightarrow>
   replaceFirst (h # pattern) replacement (pre @ (h # pattern) @ post) = pre @ replacement @ post"
  by (induction pre) simp_all

lemma map_iconId_createIconItem [simp]:
  "map (iconId \<circ> createIconItem toUpperCase) ids = ids"
  by (induction ids) (simp_all add: createIconItem_def)

text \<open>
  C4 (as amended). On the icons tab, let the term be the text of the search input,
  lower-cased and then trimmed of surrounding white space, and let it be non-empty. The
  matching icons are the icons of the catalog, in catalog order, whose lower-cased
  identifier or lower-cased display name contains the term. The grid shows the first 50
  matching icons, never more; an overflow message is shown exactly when more than 50
  icons match, and it is the locale's template with the total number of matching icons
  in decimal in place of the first \<open>{count}\<close>.
\<close>

theorem updateResults_search:
  fixes modal :: IconPickerModal
    and toLowerCase toUpperCase :: "jsstring \<Rightarrow> jsstring"
    and searchTerm matchingIcons
  defines "searchTerm \<equiv> trim (toLowerCase (searchInputValue modal))"
    and "matchingIcons \<equiv>
      filter (\<lambda>icon. sublist searchTerm (toLowerCase (getIconDisplayName toUpperCase icon))
                     \<or> sublist searchTerm (toLowerCase icon)) (allIcons modal)"
  assumes "activeTab modal = Icons" and "searchTerm \<noteq> []"
  shows "shownIcons (snd (updateResults toLowerCase toUpperCase strings modal))
           = take 50 matchingIcons
    \<and> length (shownIcons (snd (updateResults toLowerCase toUpperCase strings modal))) \<le> 50
    \<and> moreMessages (snd (updateResults toLowerCase toUpperCase strings modal))
        = (if 50 < length matchingIcons
           then [replaceFirst (js ''{count}'') (toString (length matchingIcons))
                   (showingResultsInfo strings)]
           else [])
    \<and> (50 < length matchingIcons
         \<and> showingResultsInfo strings = before @ js ''{count}'' @ after \<and> 0x7B \<notin> set before
        \<longrightarrow> moreMessages (snd (updateResults toLowerCase toUpperCase strings modal))
              = [before @ toString (length matchingIcons) @ after])"
proof -
  have shown: "shownIcons (snd (updateResults toLowerCase toUpperCase strings modal))
           = take 50 matchingIcons"
    using assms(3,4) unfolding updateResults_def searchTerm_def matchingIcons_def
    by (simp add: Let_def slice_0_take)
  have more: "moreMessages (snd (updateResults toLowerCase toUpperCase strings modal))
        = (if 50 < length matchingIcons
           then [replaceFirst (js ''{count}'') (toString (length matchingIcons))
                   (showingResultsInfo strings)]
           else [])"
    using assms(3,4) unfolding updateResults_def searchTerm_def matchingIcons_def
    by (simp add: Let_def)
  have templ: "replaceFirst (js ''{count}'') d (before @ js ''{count}'' @ after) = before @ d @ after"
    if "0x7B \<notin> set before" for d
    using replaceFirst_at [OF that, of "js ''count}''" d after] by (simp add: js_def)
  from shown more templ show ?thesis by auto
qed

text \<open>
  A search for \<open>Fold\<close> with surrounding blanks finds \<open>folder-open\<close>; with 51 icons
  that match, 50 are shown and the French message reports 51.
\<close>

theorem updateResults_search_witness:
  "shownIcons (snd (updateResults asciiLower asciiUpper stringsFr
     ((newIconPickerModal [js ''folder-open'', js ''lucide-star'', js ''file-text''] (js ''notes'')
         [] FOLDER)\<lparr>searchInputValue := js '' Fold ''\<rparr>)))
   = [js ''folder-open'']
   \<and> getIconDisplayName asciiUpper (js ''lucide-folder-open'') = js ''Folder Open''
   \<and> shownIcons (snd (updateResults asciiLower asciiUpper stringsFr
     ((newIconPickerModal (replicate 51 (js ''star'')) (js ''notes'') [] FOLDER)
        \<lparr>searchInputValue := js ''S''\<rparr>)))
     = replicate 50 (js ''star'')
   \<and> moreMessages (snd (updateResults asciiLower asciiUpper stringsFr
     ((newIconPickerModal (replicate 51 (js ''star'')) (js ''notes'') [] FOLDER)
        \<lparr>searchInputValue := js ''S''\<rparr>)))
     = [js ''Affichage de 50 r'' @ [0xE9] @ js ''sultats sur 51. Tapez plus pour affiner.'']"
proof -
  let ?m1 = "(newIconPickerModal [js ''folder-open'', js ''lucide-star'', js ''file-text'']
      (js ''notes'') [] FOLDER)\<lparr>searchInputValue := js '' Fold ''\<rparr>"
  let ?m2 = "(newIconPickerModal (replicate 51 (js ''star'')) (js ''notes'') [] FOLDER)
      \<lparr>searchInputValue := js ''S''\<rparr>"
  have t1: "trim (asciiLower (searchInputValue ?m1)) = js ''fold''"
    by (simp add: trim_def asciiLower_def isWhiteSpace_def js_def)
  have t2: "trim (asciiLower (searchInputValue ?m2)) = js ''s''"
    by (simp add: trim_def asciiLower_def isWhiteSpace_def js_def)
  have names: "getIconDisplayName asciiUpper (js ''folder-open'') = js ''Folder Open''"
    "getIconDisplayName asciiUpper (js ''lucide-star'') = js ''Star''"
    "getIconDisplayName asciiUpper (js ''star'') = js ''Star''"
    "getIconDisplayName asciiUpper (js ''file-text'') = js ''File Text''"
    "getIconDisplayName asciiUpper (js ''lucide-folder-open'') = js ''Folder Open''"
    by (simp_all add: getIconDisplayName_def asciiUpper_def charAt_def sliceFrom_def slice'_def
        js_def)
  have m1: "filter (\<lambda>icon. sublist (js ''fold'') (asciiLower (getIconDisplayName asciiUpper icon))
                     \<or> sublist (js ''fold'') (asciiLower icon))
              [js ''folder-open'', js ''lucide-star'', js ''file-text''] = [js ''folder-open'']"
    unfolding filter.simps names by (simp add: asciiLower_def js_def sublist_Cons_right)
  have star: "sublist (js ''s'') (asciiLower (js ''star''))"
    by (simp add: asciiLower_def js_def sublist_Cons_right)
  have m2: "filter (\<lambda>icon. sublist (js ''s'') (asciiLower (getIconDisplayName asciiUpper icon))
                     \<or> sublist (js ''s'') (asciiLower icon))
              (replicate 51 (js ''star'')) = replicate 51 (js ''star'')"
    using star by simp
  have fifty: "toString 51 = js ''51''"
    by (simp add: js_def)
  have fr: "showingResultsInfo stringsFr
      = (js ''Affichage de 50 r'' @ [0xE9] @ js ''sultats sur '') @ js ''{count}''
        @ js ''. Tapez plus pour affiner.''"
    "0x7B \<notin> set (js ''Affichage de 50 r'' @ [0xE9] @ js ''sultats sur '')"
    by (simp_all add: stringsFr_def js_def)
  have a1: "activeTab ?m1 = Icons" and a2: "activeTab ?m2 = Icons"
    by (simp_all add: newIconPickerModal_def)
  have n1: "trim (asciiLower (searchInputValue ?m1)) \<noteq> []"
    and n2: "trim (asciiLower (searchInputValue ?m2)) \<noteq> []"
    unfolding t1 t2 by (simp_all add: js_def)
  have c1: "allIcons ?m1 = [js ''folder-open'', js ''lucide-star'', js ''file-text'']"
    and c2: "allIcons ?m2 = replicate 51 (js ''star'')"
    by (simp_all add: newIconPickerModal_def)
  from updateResults_search
         [where modal = ?m1 and toLowerCase = asciiLower and toUpperCase = asciiUpper
            and strings = stringsFr, OF a1 n1]
  have r1: "shownIcons (snd (updateResults asciiLower asciiUpper stringsFr ?m1))
      = [js ''folder-open'']"
    unfolding t1 c1 m1 by simp
  note th2 = updateResults_search
         [where modal = ?m2 and toLowerCase = asciiLower and toUpperCase = asciiUpper
            and strings = stringsFr
            and before = "js ''Affichage de 50 r'' @ [0xE9] @ js ''sultats sur ''"
            and after = "js ''. Tapez plus pour affiner.''", OF a2 n2, unfolded t2 c2 m2]
  have len: "50 < length (replicate 51 (js ''star''))" by simp
  from th2 have "shownIcons (snd (updateResults asciiLower asciiUpper stringsFr ?m2))
      = take 50 (replicate 51 (js ''star''))"
    by blast
  then have r2: "shownIcons (snd (updateResults asciiLower asciiUpper stringsFr ?m2))
      = replicate 50 (js ''star'')"
    by simp
  from th2 len fr
  have "moreMessages (snd (updateResults asciiLower asciiUpper stringsFr ?m2))
      = [(js ''Affichage de 50 r'' @ [0xE9] @ js ''sultats sur '')
          @ toString (length (replicate 51 (js ''star''))) @ js ''. Tapez plus pour affiner.'']"
    by blast
  then have r3: "moreMessages (snd (updateResults asciiLower asciiUpper stringsFr ?m2))
      = [js ''Affichage de 50 r'' @ [0xE9] @ js ''sultats sur 51. Tapez plus pour affiner.'']"
    unfolding length_replicate fifty by (simp add: js_def)
  from r1 r2 r3 names(5) show ?thesis by blast
qed

text \<open>
  C4 (as stated) fails for a term of white space: the term \<open>'' ''\<close> is non-empty and
  the display name \<open>Folder Open\<close> of the only icon contains it, but the search shows
  the message of the empty search and no icon.
\<close>

theorem updateResults_blank_term_counterexample:
  "snd (updateResults asciiLower asciiUpper stringsFr
     ((newIconPickerModal [js ''folder-open''] (js ''notes'') [] FOLDER)
        \<lparr>searchInputValue := js '' ''\<rparr>))
   = [EmptyMessage (emptyStateSearch stringsFr)]
   \<and> shownIcons (snd (updateResults asciiLower asciiUpper stringsFr
     ((newIconPickerModal [js ''folder-open''] (js ''notes'') [] FOLDER)
        \<lparr>searchInputValue := js '' ''\<rparr>))) = []
   \<and> sublist (asciiLower (js '' ''))
        (asciiLower (getIconDisplayName asciiUpper (js ''folder-open'')))
   \<and> js '' '' \<noteq> []"
proof -
  have t: "trim (asciiLower (js '' '')) = []"
    by (simp add: trim_def asciiLower_def isWhiteSpace_def js_def)
  have name: "getIconDisplayName asciiUpper (js ''folder-open'') = js ''Folder Open''"
    by (simp add: getIconDisplayName_def asciiUpper_def charAt_def sliceFrom_def slice'_def
        js_def)
  have sub: "sublist (asciiLower (js '' '')) (asciiLower (js ''Folder Open''))"
    by (simp add: asciiLower_def js_def sublist_Cons_right)
  have view: "snd (updateResults asciiLower asciiUpper stringsFr
     ((newIconPickerModal [js ''folder-open''] (js ''notes'') [] FOLDER)
        \<lparr>searchInputValue := js '' ''\<rparr>))
   = [EmptyMessage (emptyStateSearch stringsFr)]"
    by (simp add: updateResults_def newIconPickerModal_def t)
  from view sub show ?thesis unfolding name by (simp add: js_def)
qed

end
